theory Spec2Isabelle
  imports Complex_Main "HOL-Library.Monad_Syntax" "HOL-Library.Sublist"
begin

section \<open>Python values\<close>

text \<open>
  The analysis scripts pass loosely typed dictionaries around. An entry of such a
  dictionary is in one of three states, which the code tells apart: the key is missing
  (\<open>d.get(k)\<close> gives the default), the key holds \<open>None\<close>, or the key holds a value.
  Numbers (Python \<open>int\<close> and \<open>float\<close>) are modelled as exact rationals; every score
  constant of the scripts is a multiple of one half and so is exact in binary floating
  point as well. Strings are byte strings (ASCII identifiers). A raised exception is the
  result \<open>None\<close> of an \<open>option\<close>.
\<close>

datatype 'a field = Absent | PyNone | Val 'a

text \<open>\<open>d.get(k)\<close>: a missing key reads as \<open>None\<close>.\<close>

fun get_field :: "'a field \<Rightarrow> 'a option" where
  "get_field Absent = None"
| "get_field PyNone = None"
| "get_field (Val v) = Some v"

text \<open>\<open>d.get(k, default)\<close>: only a missing key reads as the default.\<close>

fun get_default :: "'a field \<Rightarrow> 'a \<Rightarrow> 'a option" where
  "get_default Absent d = Some d"
| "get_default PyNone d = None"
| "get_default (Val v) d = Some v"

text \<open>Truthiness of an optional number: \<open>None\<close> and zero are falsy.\<close>

fun truthy_num :: "rat option \<Rightarrow> bool" where
  "truthy_num None = False"
| "truthy_num (Some x) = (x \<noteq> 0)"

text \<open>How an f-string renders a string-valued entry read with \<open>d.get(k, '')\<close>.\<close>

fun fmt_str :: "string field \<Rightarrow> string" where
  "fmt_str Absent = []"
| "fmt_str PyNone = ''None''"
| "fmt_str (Val s) = s"

section \<open>Candidates\<close>

record scores =
  business_potential :: rat
  data_readiness :: rat
  metadata_quality :: rat
  governance_risk :: rat

record sparsity_info =
  sp_null_percentage :: "rat field"

record content_type_info =
  ct_avg_length :: "rat field"
  ct_is_natural_language :: "bool field"

record json_structure_info =
  js_is_valid_structure :: "bool field"

text \<open>
  The statistics dictionary of a candidate, with the keys that the modelled functions
  read or write. The flat keys come from the metadata estimate or from sampling, the
  nested ones from deep profiling. Every statistics dictionary that the scripts build
  holds at least one of these keys, so it is empty exactly when all of them are missing.
\<close>

record statistics =
  row_count :: "int field"
  st_data_type :: "string field"
  is_nullable :: "string field"
  has_comment :: "bool field"
  source :: "string field"
  null_percentage :: "rat field"
  non_null_count :: "int field"
  max_length :: "rat field"
  avg_length :: "rat field"
  min_length :: "rat field"
  numeric_precision :: "int field"
  numeric_scale :: "int field"
  is_semi_structured :: "bool field"
  sparsity :: "sparsity_info field"
  content_type :: "content_type_info field"
  json_structure :: "json_structure_info field"

record candidate =
  c_database :: "string field"
  c_schema :: "string field"
  c_table :: "string field"
  c_column :: "string field"
  c_data_type :: "string field"
  c_max_length :: "rat field"
  c_comment :: "string field"
  c_ai_feature :: "string field"
  c_reason :: "string field"
  c_statistics :: "statistics field"
  c_scores :: "scores field"
  c_total_score :: "rat field"

section \<open>Strings and rounding\<close>

text \<open>\<open>str.upper()\<close> on ASCII letters.\<close>

definition upper_char :: "char \<Rightarrow> char" where
  "upper_char c =
     (case map_of (zip ''abcdefghijklmnopqrstuvwxyz'' ''ABCDEFGHIJKLMNOPQRSTUVWXYZ'') c of
        None \<Rightarrow> c | Some u \<Rightarrow> u)"

definition upper :: "string \<Rightarrow> string" where
  "upper s = map upper_char s"

text \<open>The ASCII characters that \<open>str.strip()\<close> removes.\<close>

definition is_space :: "char \<Rightarrow> bool" where
  "is_space c = (c \<in> set [CHR 0x20, CHR 0x09, CHR 0x0A, CHR 0x0B, CHR 0x0C, CHR 0x0D,
                           CHR 0x1C, CHR 0x1D, CHR 0x1E, CHR 0x1F])"

definition strip :: "string \<Rightarrow> string" where
  "strip s = rev (dropWhile is_space (rev (dropWhile is_space s)))"

text \<open>\<open>s.split('(')[0]\<close>: the part before the first opening parenthesis.\<close>

definition before_paren :: "string \<Rightarrow> string" where
  "before_paren s = takeWhile (\<lambda>c. c \<noteq> CHR ''('') s"

text \<open>\<open>needle in haystack\<close> on strings.\<close>

fun contains :: "string \<Rightarrow> string \<Rightarrow> bool" where
  "contains [] needle = (needle = [])"
| "contains (c # cs) needle = (prefix needle (c # cs) \<or> contains cs needle)"

text \<open>
  \<open>round(x, 2)\<close> in exact arithmetic: to the nearest multiple of one hundredth, a tie
  going to the even one.
\<close>

definition round_half_even :: "rat \<Rightarrow> int" where
  "round_half_even x =
     (let f = \<lfloor>x\<rfloor>; d = x - of_int f
      in if d < 1 / 2 then f else if 1 / 2 < d then f + 1
         else if even f then f else f + 1)"

definition py_round2 :: "rat \<Rightarrow> rat" where
  "py_round2 x = of_int (round_half_even (x * 100)) / 100"

section \<open>Table readiness from metadata\<close>


definition SEMI_STRUCTURED_TYPES :: "string set" where
  "SEMI_STRUCTURED_TYPES = {''VARIANT'', ''OBJECT'', ''ARRAY''}"

definition TEXT_TYPES :: "string set" where
  "TEXT_TYPES = {''VARCHAR'', ''TEXT'', ''STRING'', ''CHAR'', ''CHARACTER''}"

definition NUMERIC_TYPES :: "string set" where
  "NUMERIC_TYPES = {''NUMBER'', ''DECIMAL'', ''NUMERIC'', ''INT'', ''INTEGER'', ''BIGINT'',
     ''SMALLINT'', ''TINYINT'', ''BYTEINT'', ''FLOAT'', ''FLOAT4'', ''FLOAT8'', ''DOUBLE'',
     ''DOUBLE PRECISION'', ''REAL''}"


text \<open>
  A \<open>datetime\<close>: the reading of its own clock in microseconds since the epoch, and
  its \<open>tzinfo\<close> as an offset from UTC in microseconds (\<open>None\<close> for a naive value).
\<close>

record datetime =
  wall_clock :: int
  utc_offset :: "int option"

datatype time_value = TimeString string | TimeStamp datetime

text \<open>
  The entries of the lookups. \<open>build_table_metadata_lookup\<close> and
  \<open>build_column_metadata_lookup\<close> store comments, clustering keys and data types as
  strings (\<open>comment or ''\<close>), so these are plain strings here, and every column
  entry holds its name (possibly \<open>None\<close>).
\<close>

record table_meta =
  table_comment :: string
  last_altered :: "time_value field"
  clustering_key :: string
  tm_row_count :: "int field"

record column_meta =
  column_name :: "string option"
  data_type :: string
  character_maximum_length :: "int field"
  cm_numeric_precision :: "int field"
  cm_numeric_scale :: "int field"
  cm_is_nullable :: "string field"
  column_comment :: string

record constraint_meta =
  constraint_type :: string
  constraint_name :: string

record storage_meta =
  active_bytes :: int
  time_travel_bytes :: int
  failsafe_bytes :: int
  clone_bytes :: int

text \<open>The empty dictionary that a lookup miss gives for a table.\<close>

definition empty_table_meta :: table_meta where
  "empty_table_meta =
     \<lparr>table_comment = [], last_altered = Absent, clustering_key = [], tm_row_count = Absent\<rparr>"




text \<open>\<open>last_altered.replace('Z', '+00:00')\<close>.\<close>

definition replace_Z :: "string \<Rightarrow> string" where
  "replace_Z s = concat (map (\<lambda>c. if c = CHR ''Z'' then ''+00:00'' else [c]) s)"

definition microseconds_per_day :: int where
  "microseconds_per_day = 86400000000"

text \<open>
  \<open>score_freshness\<close>. The parser \<open>datetime.fromisoformat\<close> is a parameter
  (\<open>None\<close> when it raises \<open>ValueError\<close>), and so is the current UTC instant \<open>now\<close>
  in microseconds. Subtracting two aware datetimes compares their UTC instants, and
  \<open>timedelta.days\<close> is the floor of the difference in days. The keyword parameter
  \<open>freshness_threshold_days\<close> of the source is never read.
\<close>

definition score_freshness :: "(string \<Rightarrow> datetime option) \<Rightarrow> int \<Rightarrow> table_meta \<Rightarrow> rat" where
  "score_freshness fromisoformat now tm =
     (case get_field (last_altered tm) of
        None \<Rightarrow> 0
      | Some (TimeString []) \<Rightarrow> 0
      | Some v \<Rightarrow>
          (case (case v of TimeString s \<Rightarrow> fromisoformat (replace_Z s)
                         | TimeStamp d \<Rightarrow> Some d) of
             None \<Rightarrow> 0
           | Some d \<Rightarrow>
               let d = (if utc_offset d = None then d\<lparr>utc_offset := Some 0\<rparr> else d);
                   age_days = (now - (wall_clock d - the (utc_offset d))) div microseconds_per_day
               in if age_days \<le> 7 then 100
                  else if age_days \<le> 30 then 80
                  else if age_days \<le> 90 then 50
                  else if age_days \<le> 180 then 25
                  else 10))"








text \<open>
  The instant that a datetime denotes, in microseconds since the epoch, when a naive
  value is read as UTC.
\<close>

definition utc_instant :: "datetime \<Rightarrow> int" where
  "utc_instant d = wall_clock d - (case utc_offset d of None \<Rightarrow> 0 | Some off \<Rightarrow> off)"

text \<open>Example inputs: a parser that rejects every string, and a table of eight
  \<open>BINARY\<close> columns of which one has a comment, with no other metadata.\<close>

definition no_parser :: "string \<Rightarrow> datetime option" where
  "no_parser s = None"




section \<open>Column statistics from metadata\<close>

definition empty_statistics :: statistics where
  "empty_statistics =
     \<lparr>row_count = Absent, st_data_type = Absent, is_nullable = Absent, has_comment = Absent,
      source = Absent, null_percentage = Absent, non_null_count = Absent,
      max_length = Absent, avg_length = Absent, min_length = Absent,
      numeric_precision = Absent, numeric_scale = Absent, is_semi_structured = Absent,
      sparsity = Absent, content_type = Absent, json_structure = Absent\<rparr>"

text \<open>\<open>int(x)\<close> on a number: truncation towards zero.\<close>

definition py_int :: "rat \<Rightarrow> int" where
  "py_int x = (if 0 \<le> x then \<lfloor>x\<rfloor> else \<lceil>x\<rceil>)"

text \<open>A value read with \<open>d.get(k)\<close> and stored again: a missing key is stored as \<open>None\<close>.\<close>

fun stored :: "'a field \<Rightarrow> 'a field" where
  "stored Absent = PyNone"
| "stored f = f"

text \<open>\<open>any(t in base_type for t in ts)\<close>.\<close>

definition contains_any :: "string \<Rightarrow> string list \<Rightarrow> bool" where
  "contains_any s ts = list_ex (contains s) ts"

text \<open>
  \<open>compute_column_metadata_stats\<close>. A missing table entry is the empty dictionary
  \<open>empty_table_meta\<close>.
\<close>

definition compute_column_metadata_stats :: "column_meta \<Rightarrow> table_meta \<Rightarrow> statistics" where
  "compute_column_metadata_stats cm tm =
     (let dtype = upper (data_type cm);
          base_type = strip (before_paren dtype);
          char_max_len = get_field (character_maximum_length cm);
          nullable = (case cm_is_nullable cm of Absent \<Rightarrow> Val ''YES'' | f \<Rightarrow> f);
          commented = (strip (column_comment cm) \<noteq> []);
          rows = (case get_field (tm_row_count tm) of
                    None \<Rightarrow> 0 | Some n \<Rightarrow> if n \<noteq> 0 then n else 0);
          stats = empty_statistics
            \<lparr>row_count := Val rows, st_data_type := Val dtype, is_nullable := nullable,
             has_comment := Val commented, source := Val ''metadata_only''\<rparr>;
          stats = (if nullable = Val ''NO''
                   then stats\<lparr>null_percentage := Val 0, non_null_count := Val rows\<rparr>
                   else stats\<lparr>null_percentage := Val 20,
                              non_null_count :=
                                Val (if rows \<noteq> 0 then py_int (of_int rows * (8 / 10)) else 0)\<rparr>)
      in if base_type \<in> TEXT_TYPES \<or>
            contains_any base_type [''VARCHAR'', ''TEXT'', ''STRING'', ''CHAR'']
         then (case char_max_len of
                 Some n \<Rightarrow>
                   if n \<noteq> 0
                   then let estimated_avg = min (of_int n * (3 / 10)) 5000
                        in stats\<lparr>max_length := Val (of_int n),
                                 avg_length := Val (py_round2 estimated_avg),
                                 min_length := Val 0\<rparr>
                   else stats\<lparr>max_length := Val 16777216, avg_length := Val 100,
                              min_length := Val 0\<rparr>
               | None \<Rightarrow>
                   stats\<lparr>max_length := Val 16777216, avg_length := Val 100,
                         min_length := Val 0\<rparr>)
         else if base_type \<in> NUMERIC_TYPES \<or>
            contains_any base_type [''NUMBER'', ''INT'', ''FLOAT'', ''DOUBLE'', ''DECIMAL'']
         then stats\<lparr>numeric_precision := stored (cm_numeric_precision cm),
                    numeric_scale := stored (cm_numeric_scale cm)\<rparr>
         else if base_type \<in> SEMI_STRUCTURED_TYPES
         then stats\<lparr>is_semi_structured := Val True\<rparr>
         else stats)"

section \<open>Data readiness of a column\<close>

text \<open>
  Both scorers take the statistics as a dictionary or \<open>None\<close>; \<open>not statistics\<close>
  holds for \<open>None\<close> and for the empty dictionary. A \<open>None\<close> stored under
  \<open>null_percentage\<close> makes the first comparison raise \<open>TypeError\<close>, which is the
  result \<open>None\<close> here.
\<close>

definition null_rate_points :: "rat \<Rightarrow> rat" where
  "null_rate_points null_pct =
     (if null_pct \<le> 10 then 2 else if null_pct \<le> 30 then 3 / 2
      else if null_pct \<le> 50 then 1 else if null_pct \<le> 70 then 1 / 2 else 0)"

definition content_points :: "rat option \<Rightarrow> rat" where
  "content_points avg =
     (case avg of
        None \<Rightarrow> 0
      | Some a \<Rightarrow> if a \<ge> 200 then 2 else if a \<ge> 100 then 3 / 2
                 else if a \<ge> 50 then 1 else if a > 0 then 1 / 2 else 0)"

text \<open>\<open>enhance_data_readiness_score_metadata\<close>; its candidate argument is never read.\<close>

definition enhance_data_readiness_score_metadata :: "statistics option \<Rightarrow> rat option" where
  "enhance_data_readiness_score_metadata column_stats =
     (case column_stats of
        None \<Rightarrow> Some 1
      | Some st \<Rightarrow>
          if st = empty_statistics then Some 1
          else do {
            null_pct \<leftarrow> get_default (null_percentage st) 50;
            let score = null_rate_points null_pct;
            let score = score + content_points (get_field (avg_length st));
            let commented = (case get_default (has_comment st) False of
                               None \<Rightarrow> False | Some b \<Rightarrow> b);
            let is_not_nullable = (get_field (is_nullable st) = Some ''NO'');
            let score = (if commented \<and> is_not_nullable then score + 1
                         else if commented \<or> is_not_nullable then score + 1 / 2
                         else score);
            Some (py_round2 (min score 5))
          })"

text \<open>
  \<open>enhance_data_readiness_score\<close>, the scorer of the sampling path. Its third
  component compares the longest value seen with the declared length of the candidate.
\<close>

definition enhance_data_readiness_score :: "candidate \<Rightarrow> statistics option \<Rightarrow> rat option" where
  "enhance_data_readiness_score cand stats =
     (case stats of
        None \<Rightarrow> Some 1
      | Some st \<Rightarrow>
          if st = empty_statistics then Some 1
          else do {
            null_pct \<leftarrow> get_default (null_percentage st) 100;
            let score = null_rate_points null_pct;
            let score = score + content_points (get_field (avg_length st));
            let score = (case (get_field (max_length st), get_field (c_max_length cand)) of
                           (Some ml, Some defined_length) \<Rightarrow>
                             if defined_length \<noteq> 0 \<and> defined_length > 0
                             then let efficiency = ml / defined_length * 100
                                  in if efficiency > 50 then score + 1
                                     else if efficiency \<ge> 25 then score + 1 / 2
                                     else score
                             else score
                         | _ \<Rightarrow> score);
            Some (py_round2 score)
          })"

section \<open>Scoring candidates\<close>

text \<open>
  A text profile as built in phase 4; its identity entries are always present and may
  hold \<open>None\<close>.
\<close>

record text_profile =
  p_database :: "string option"
  p_schema :: "string option"
  p_table :: "string option"
  p_column :: "string option"
  p_avg_length :: "rat field"
  p_non_null_count :: "rat field"
  p_total_rows_sampled :: "rat field"

definition pii_indicators :: "string list" where
  "pii_indicators = [''EMAIL'', ''SSN'', ''PHONE'', ''ADDRESS'', ''NAME'', ''DOB'', ''BIRTH'',
     ''PASSWORD'', ''SECRET'']"

definition candidate_identity :: "candidate \<Rightarrow> string option \<times> string option \<times> string option \<times> string option" where
  "candidate_identity c =
     (get_field (c_database c), get_field (c_schema c), get_field (c_table c),
      get_field (c_column c))"

definition sum_scores :: "scores \<Rightarrow> rat" where
  "sum_scores s = business_potential s + data_readiness s + metadata_quality s + governance_risk s"

text \<open>
  The adjustment of \<open>data_readiness\<close> from the first text profile with the identity of
  the candidate. Comparing a \<open>None\<close> average length with 100 raises, and so does
  the subscript \<open>p['total_rows_sampled']\<close> when the key is missing.
\<close>

definition profile_readiness :: "text_profile \<Rightarrow> rat \<Rightarrow> rat option" where
  "profile_readiness p dr = do {
     avg \<leftarrow> get_default (p_avg_length p) 0;
     let dr = (if avg > 100 then 4 else dr);
     (if truthy_num (get_default (p_non_null_count p) 0) \<and>
         truthy_num (get_default (p_total_rows_sampled p) 1)
      then do {
        non_null \<leftarrow> get_field (p_non_null_count p);
        total_rows \<leftarrow> get_field (p_total_rows_sampled p);
        let fill_rate = non_null / max total_rows 1;
        Some (if fill_rate > 9 / 10 then 5 else dr)
      }
      else Some dr)
   }"

definition score_candidate :: "candidate \<Rightarrow> text_profile list \<Rightarrow> candidate option" where
  "score_candidate cand text_profiles = do {
     let ai_feature = get_default (c_ai_feature cand) [];
     let bp = (if ai_feature = Some ''Cortex LLM'' then 4
               else if ai_feature = Some ''Cortex ML (Forecasting/Anomaly)'' then 5
               else if ai_feature = Some ''Cortex Search / RAG'' then 4
               else if ai_feature = Some ''Cortex Extract'' then 3
               else 3);
     dr \<leftarrow> (case find (\<lambda>p. (p_database p, p_schema p, p_table p, p_column p) =
                                candidate_identity cand) text_profiles of
               None \<Rightarrow> Some 3
             | Some p \<Rightarrow> profile_readiness p 3);
     let mq = (case get_field (c_comment cand) of
                 None \<Rightarrow> 2 | Some cmt \<Rightarrow> if cmt \<noteq> [] then 4 else 2);
     let col_name = upper (fmt_str (c_column cand));
     let table_name = upper (fmt_str (c_table cand));
     let gr = (if list_ex (\<lambda>ind. contains col_name ind \<or> contains table_name ind) pii_indicators
               then 5 else 2);
     let scores = \<lparr>business_potential = bp, data_readiness = dr, metadata_quality = mq,
                    governance_risk = gr\<rparr>;
     Some (cand\<lparr>c_scores := Val scores, c_total_score := Val (sum_scores scores)\<rparr>)
   }"

text \<open>Every dimension score lies between 0 and 5.\<close>

definition dims_in_range :: "scores \<Rightarrow> bool" where
  "dims_in_range s =
     (0 \<le> business_potential s \<and> business_potential s \<le> 5 \<and>
      0 \<le> data_readiness s \<and> data_readiness s \<le> 5 \<and>
      0 \<le> metadata_quality s \<and> metadata_quality s \<le> 5 \<and>
      0 \<le> governance_risk s \<and> governance_risk s \<le> 5)"

text \<open>
  The re-scoring passes. All three overwrite \<open>data_readiness\<close> and then assign
  \<open>sum(cand['scores'].values())\<close> to \<open>total_score\<close>. A candidate without scores gets
  the defaults 3, 2, 2 first; a \<open>None\<close> stored under \<open>scores\<close> makes the item
  assignment raise.
\<close>

definition default_scores :: scores where
  "default_scores = \<lparr>business_potential = 3, data_readiness = 0, metadata_quality = 2,
                      governance_risk = 2\<rparr>"

definition set_data_readiness :: "candidate \<Rightarrow> rat \<Rightarrow> candidate option" where
  "set_data_readiness cand enhanced_score = do {
     sc \<leftarrow> (case c_scores cand of
               Absent \<Rightarrow> Some default_scores | PyNone \<Rightarrow> None | Val s \<Rightarrow> Some s);
     let sc = sc\<lparr>data_readiness := enhanced_score\<rparr>;
     Some (cand\<lparr>c_scores := Val sc, c_total_score := Val (sum_scores sc)\<rparr>)
   }"

text \<open>Phase 2E of \<open>run_agent\<close>: re-scoring with the metadata scorer.\<close>

definition rescore_metadata :: "candidate \<Rightarrow> candidate option" where
  "rescore_metadata cand =
     (let stats = (case c_statistics cand of
                     Absent \<Rightarrow> Some empty_statistics | PyNone \<Rightarrow> None | Val s \<Rightarrow> Some s)
      in if stats \<noteq> None \<and> stats \<noteq> Some empty_statistics
         then do {
           enhanced_score \<leftarrow> enhance_data_readiness_score_metadata stats;
           set_data_readiness cand enhanced_score
         }
         else Some cand)"

text \<open>Phase 2C of the sampling analysis: re-scoring with the sample scorer.\<close>

definition rescore_sample :: "candidate \<Rightarrow> candidate option" where
  "rescore_sample cand =
     (case c_statistics cand of
        Absent \<Rightarrow> Some cand
      | f \<Rightarrow> do {
          enhanced_score \<leftarrow> enhance_data_readiness_score cand (get_field f);
          set_data_readiness cand enhanced_score
        })"

text \<open>
  The full-scan pass: the exact statistics are attached, and the scores are updated only
  when the candidate has some.
\<close>

definition rescore_full_scan :: "candidate \<Rightarrow> statistics \<Rightarrow> candidate option" where
  "rescore_full_scan cand stats = do {
     let cand = cand\<lparr>c_statistics := Val stats\<rparr>;
     enhanced_score \<leftarrow> enhance_data_readiness_score cand (Some stats);
     (case c_scores cand of
        Absent \<Rightarrow> Some cand
      | _ \<Rightarrow> set_data_readiness cand enhanced_score)
   }"

section \<open>Confirmed candidates\<close>

text \<open>
  The confirmation thresholds are module constants read from the configuration; their
  defaults are 3.5, 50 and 30.
\<close>

record confirm_config =
  CONFIRM_MIN_DATA_READINESS :: rat
  CONFIRM_MAX_SPARSITY :: rat
  CONFIRM_MIN_AVG_TEXT_LENGTH :: rat

definition default_config :: confirm_config where
  "default_config =
     \<lparr>CONFIRM_MIN_DATA_READINESS = 7 / 2, CONFIRM_MAX_SPARSITY = 50,
      CONFIRM_MIN_AVG_TEXT_LENGTH = 30\<rparr>"

text \<open>
  The reasons that \<open>is_confirmed_candidate\<close> appends, one constructor for each
  f-string of the source, with the number that the string shows:
  \<open>High sparsity (x% NULL)\<close>, \<open>Good completeness (x% populated)\<close>,
  \<open>Short content (avg x chars)\<close>, \<open>Substantial content (avg x chars)\<close>,
  \<open>Content appears to be codes/structured, not natural language\<close>,
  \<open>Natural language content detected\<close>, \<open>Invalid JSON structure detected\<close>,
  \<open>Valid JSON structure confirmed\<close>, \<open>Low data readiness score (x)\<close> and
  \<open>Good data readiness (x)\<close>.
\<close>

datatype reason =
    High_sparsity rat
  | Good_completeness rat
  | Short_content rat
  | Substantial_content rat
  | Not_natural_language
  | Natural_language_detected
  | Invalid_json
  | Valid_json
  | Low_data_readiness rat
  | Good_data_readiness rat

text \<open>\<open>{**stats, **profile}\<close>: every key that the profile has overrides.\<close>

fun override :: "'a field \<Rightarrow> 'a field \<Rightarrow> 'a field" where
  "override a Absent = a"
| "override a b = b"

definition merge_statistics :: "statistics \<Rightarrow> statistics \<Rightarrow> statistics" where
  "merge_statistics st pr =
     \<lparr>row_count = override (row_count st) (row_count pr),
      st_data_type = override (st_data_type st) (st_data_type pr),
      is_nullable = override (is_nullable st) (is_nullable pr),
      has_comment = override (has_comment st) (has_comment pr),
      source = override (source st) (source pr),
      null_percentage = override (null_percentage st) (null_percentage pr),
      non_null_count = override (non_null_count st) (non_null_count pr),
      max_length = override (max_length st) (max_length pr),
      avg_length = override (avg_length st) (avg_length pr),
      min_length = override (min_length st) (min_length pr),
      numeric_precision = override (numeric_precision st) (numeric_precision pr),
      numeric_scale = override (numeric_scale st) (numeric_scale pr),
      is_semi_structured = override (is_semi_structured st) (is_semi_structured pr),
      sparsity = override (sparsity st) (sparsity pr),
      content_type = override (content_type st) (content_type pr),
      json_structure = override (json_structure st) (json_structure pr)\<rparr>"

text \<open>
  The statistics that the checks read: those of the candidate, overridden by a non-empty
  profile. A \<open>None\<close> stored under \<open>statistics\<close> raises, at the merge or at the first
  \<open>get\<close>.
\<close>

definition confirmation_stats :: "candidate \<Rightarrow> statistics option \<Rightarrow> statistics option" where
  "confirmation_stats cand profile = do {
     stats \<leftarrow> (case c_statistics cand of
                  Absent \<Rightarrow> Some empty_statistics | PyNone \<Rightarrow> None | Val s \<Rightarrow> Some s);
     (case profile of
        None \<Rightarrow> Some stats
      | Some pr \<Rightarrow> if pr \<noteq> empty_statistics then Some (merge_statistics stats pr)
                   else Some stats)
   }"

text \<open>
  \<open>stats.get('null_percentage') or stats.get('sparsity', {}).get('null_percentage', 100)\<close>.
  A \<open>None\<close> stored under \<open>sparsity\<close> raises at the second \<open>get\<close>, and a
  \<open>None\<close> read from the nested entry raises at the comparison that follows.
\<close>

definition read_null_pct :: "statistics \<Rightarrow> rat option" where
  "read_null_pct stats =
     (if truthy_num (get_field (null_percentage stats)) then get_field (null_percentage stats)
      else (case sparsity stats of
              Absent \<Rightarrow> Some 100
            | PyNone \<Rightarrow> None
            | Val sp \<Rightarrow> get_default (sp_null_percentage sp) 100))"

text \<open>Check 1, sparsity. The state is the verdict so far and the reasons so far.\<close>

definition check_sparsity ::
  "confirm_config \<Rightarrow> statistics \<Rightarrow> bool \<times> reason list \<Rightarrow> (bool \<times> reason list) option" where
  "check_sparsity cfg stats state = do {
     null_pct \<leftarrow> read_null_pct stats;
     (if null_pct > CONFIRM_MAX_SPARSITY cfg
      then Some (False, snd state @ [High_sparsity null_pct])
      else Some (fst state, snd state @ [Good_completeness (100 - null_pct)]))
   }"

text \<open>
  \<open>stats.get('avg_length') or stats.get('content_type', {}).get('avg_length', 0)\<close>:
  the outer \<open>option\<close> is the exception, the inner one the value \<open>None\<close>.
\<close>

definition read_avg_len :: "statistics \<Rightarrow> rat option option" where
  "read_avg_len stats =
     (if truthy_num (get_field (avg_length stats)) then Some (get_field (avg_length stats))
      else (case content_type stats of
              Absent \<Rightarrow> Some (Some 0)
            | PyNone \<Rightarrow> None
            | Val ct \<Rightarrow> Some (get_default (ct_avg_length ct) 0)))"

text \<open>\<open>stats.get('content_type', {}).get('is_natural_language', None)\<close>.\<close>

definition read_is_nl :: "statistics \<Rightarrow> bool option option" where
  "read_is_nl stats =
     (case content_type stats of
        Absent \<Rightarrow> Some None
      | PyNone \<Rightarrow> None
      | Val ct \<Rightarrow> Some (get_field (ct_is_natural_language ct)))"

text \<open>Check 2, content quality and natural language, for LLM and Search candidates.\<close>

definition check_content ::
  "confirm_config \<Rightarrow> string option \<Rightarrow> statistics \<Rightarrow> bool \<times> reason list \<Rightarrow>
   (bool \<times> reason list) option" where
  "check_content cfg ai_feature stats state =
     (if ai_feature = Some ''Cortex LLM'' \<or> ai_feature = Some ''Cortex Search / RAG''
      then do {
        avg_len \<leftarrow> read_avg_len stats;
        let state = (if truthy_num avg_len \<and> the avg_len < CONFIRM_MIN_AVG_TEXT_LENGTH cfg
                     then (False, snd state @ [Short_content (the avg_len)])
                     else if truthy_num avg_len
                     then (fst state, snd state @ [Substantial_content (the avg_len)])
                     else state);
        is_nl \<leftarrow> read_is_nl stats;
        (if is_nl = Some False then Some (False, snd state @ [Not_natural_language])
         else if is_nl = Some True then Some (fst state, snd state @ [Natural_language_detected])
         else Some state)
      }
      else Some state)"

text \<open>\<open>stats.get('json_structure', {}).get('is_valid_structure', None)\<close>.\<close>

definition read_json_valid :: "statistics \<Rightarrow> bool option option" where
  "read_json_valid stats =
     (case json_structure stats of
        Absent \<Rightarrow> Some None
      | PyNone \<Rightarrow> None
      | Val js \<Rightarrow> Some (get_field (js_is_valid_structure js)))"

text \<open>Check 3, JSON structure, for Extract candidates.\<close>

definition check_json ::
  "string option \<Rightarrow> statistics \<Rightarrow> bool \<times> reason list \<Rightarrow> (bool \<times> reason list) option" where
  "check_json ai_feature stats state =
     (if ai_feature = Some ''Cortex Extract''
      then do {
        json_valid \<leftarrow> read_json_valid stats;
        (if json_valid = Some False then Some (False, snd state @ [Invalid_json])
         else if json_valid = Some True then Some (fst state, snd state @ [Valid_json])
         else Some state)
      }
      else Some state)"

text \<open>
  \<open>candidate.get('scores', {}).get('data_readiness', 0)\<close>; a scores dictionary always
  holds \<open>data_readiness\<close>.
\<close>

definition read_data_readiness :: "candidate \<Rightarrow> rat option" where
  "read_data_readiness cand =
     (case c_scores cand of
        Absent \<Rightarrow> Some 0
      | PyNone \<Rightarrow> None
      | Val s \<Rightarrow> Some (data_readiness s))"

text \<open>Check 4, the data readiness score.\<close>

definition check_readiness ::
  "confirm_config \<Rightarrow> candidate \<Rightarrow> bool \<times> reason list \<Rightarrow> (bool \<times> reason list) option" where
  "check_readiness cfg cand state = do {
     dr \<leftarrow> read_data_readiness cand;
     (if dr < CONFIRM_MIN_DATA_READINESS cfg
      then Some (False, snd state @ [Low_data_readiness dr])
      else Some (fst state, snd state @ [Good_data_readiness dr]))
   }"

definition is_confirmed_candidate ::
  "confirm_config \<Rightarrow> candidate \<Rightarrow> statistics option \<Rightarrow> (bool \<times> reason list) option" where
  "is_confirmed_candidate cfg cand profile = do {
     stats \<leftarrow> confirmation_stats cand profile;
     state \<leftarrow> check_sparsity cfg stats (True, []);
     let ai_feature = get_default (c_ai_feature cand) [];
     state \<leftarrow> check_content cfg ai_feature stats state;
     state \<leftarrow> check_json ai_feature stats state;
     check_readiness cfg cand state
   }"

section \<open>The LLM classifier\<close>

text \<open>A row of column metadata; the classifier ignores four of its eleven entries.\<close>

record column_row =
  r_database :: "string option"
  r_schema :: "string option"
  r_table :: "string option"
  r_column_name :: "string option"
  r_data_type :: "string option"
  r_max_len :: "rat option"
  r_comment :: "string option"

definition text_indicators :: "string list" where
  "text_indicators = [''DESCRIPTION'', ''CONTENT'', ''MESSAGE'', ''NOTE'', ''SUMMARY'',
     ''DETAIL'', ''BODY'', ''TEXT'', ''COMMENT'', ''FEEDBACK'', ''REVIEW'',
     ''ABSTRACT'', ''BIO'', ''NARRATIVE'', ''TITLE'', ''SUBJECT'']"

text \<open>A value stored into a dictionary: \<open>None\<close> stays \<open>None\<close>.\<close>

fun as_field :: "'a option \<Rightarrow> 'a field" where
  "as_field None = PyNone"
| "as_field (Some v) = Val v"

definition is_text_type :: "string \<Rightarrow> bool" where
  "is_text_type dtype_upper =
     contains_any dtype_upper [''VARCHAR'', ''TEXT'', ''STRING'', ''CHAR'']"

definition is_long_text :: "rat option \<Rightarrow> bool" where
  "is_long_text max_len = (truthy_num max_len \<and> the max_len \<ge> 500)"

definition has_text_indicator :: "string option \<Rightarrow> bool" where
  "has_text_indicator col_name =
     contains_any (upper (case col_name of None \<Rightarrow> [] | Some n \<Rightarrow> n)) text_indicators"

definition llm_candidate :: "column_row \<Rightarrow> candidate" where
  "llm_candidate row =
     \<lparr>c_database = as_field (r_database row), c_schema = as_field (r_schema row),
      c_table = as_field (r_table row), c_column = as_field (r_column_name row),
      c_data_type = as_field (r_data_type row), c_max_length = as_field (r_max_len row),
      c_comment = as_field (r_comment row), c_ai_feature = Val ''Cortex LLM'',
      c_reason = Val (''Text column ('' @ the (r_data_type row) @ '') - '' @
                      (if is_long_text (r_max_len row) then ''long text'' else ''semantic name'')),
      c_statistics = Absent, c_scores = Absent, c_total_score = Absent\<rparr>"

text \<open>The loop of \<open>identify_llm_candidates\<close>, with the list built so far.\<close>

fun llm_loop :: "column_row list \<Rightarrow> candidate list \<Rightarrow> candidate list" where
  "llm_loop [] candidates = candidates"
| "llm_loop (row # rows) candidates =
     (case r_data_type row of
        None \<Rightarrow> llm_loop rows candidates
      | Some dt \<Rightarrow>
          if dt = [] then llm_loop rows candidates
          else if is_text_type (upper dt) \<and>
                  (is_long_text (r_max_len row) \<or> has_text_indicator (r_column_name row))
          then llm_loop rows (candidates @ [llm_candidate row])
          else llm_loop rows candidates)"

definition identify_llm_candidates :: "column_row list \<Rightarrow> candidate list" where
  "identify_llm_candidates columns_data = llm_loop columns_data []"

section \<open>Merging candidate lists\<close>






text \<open>A candidate that carries only its identity, as the cache and the merge see it.\<close>

definition column_candidate :: "string \<Rightarrow> string \<Rightarrow> string \<Rightarrow> string \<Rightarrow> candidate" where
  "column_candidate db sch tbl col =
     \<lparr>c_database = Val db, c_schema = Val sch, c_table = Val tbl, c_column = Val col,
      c_data_type = Absent, c_max_length = Absent, c_comment = Absent,
      c_ai_feature = Absent, c_reason = Absent, c_statistics = Absent,
      c_scores = Absent, c_total_score = Absent\<rparr>"

text \<open>
  The example of the specification: statistics with 5 percent nulls, an average length of
  250, a comment and \<open>is_nullable = 'NO'\<close>, on the LLM candidate
  \<open>DB.SCH.TBL.DESCRIPTION\<close>.
\<close>

definition example_stats :: statistics where
  "example_stats = empty_statistics\<lparr>null_percentage := Val 5, avg_length := Val 250,
     has_comment := Val True, is_nullable := Val ''NO''\<rparr>"

definition example_candidate :: candidate where
  "example_candidate = (column_candidate ''DB'' ''SCH'' ''TBL'' ''DESCRIPTION'')
     \<lparr>c_ai_feature := Val ''Cortex LLM'', c_statistics := Val example_stats\<rparr>"

section \<open>Reading a confirmation result\<close>


text \<open>The reasons that a failed check appends.\<close>

fun is_failure :: "reason \<Rightarrow> bool" where
  "is_failure (High_sparsity x) = True"
| "is_failure (Short_content x) = True"
| "is_failure Not_natural_language = True"
| "is_failure Invalid_json = True"
| "is_failure (Low_data_readiness x) = True"
| "is_failure r = False"

text \<open>What each check appends, as a function of the value it reads.\<close>

definition sparsity_reasons :: "confirm_config \<Rightarrow> rat \<Rightarrow> reason list" where
  "sparsity_reasons cfg null_pct =
     (if null_pct > CONFIRM_MAX_SPARSITY cfg then [High_sparsity null_pct]
      else [Good_completeness (100 - null_pct)])"

definition content_reasons ::
  "confirm_config \<Rightarrow> rat option \<Rightarrow> bool option \<Rightarrow> reason list" where
  "content_reasons cfg avg_len is_nl =
     (case avg_len of
        None \<Rightarrow> []
      | Some a \<Rightarrow> if a = 0 then []
                 else if a < CONFIRM_MIN_AVG_TEXT_LENGTH cfg then [Short_content a]
                 else [Substantial_content a]) @
     (case is_nl of
        None \<Rightarrow> []
      | Some False \<Rightarrow> [Not_natural_language]
      | Some True \<Rightarrow> [Natural_language_detected])"

definition json_reasons :: "bool option \<Rightarrow> reason list" where
  "json_reasons json_valid =
     (case json_valid of
        None \<Rightarrow> []
      | Some False \<Rightarrow> [Invalid_json]
      | Some True \<Rightarrow> [Valid_json])"

definition readiness_reasons :: "confirm_config \<Rightarrow> rat \<Rightarrow> reason list" where
  "readiness_reasons cfg dr =
     (if dr < CONFIRM_MIN_DATA_READINESS cfg then [Low_data_readiness dr]
      else [Good_data_readiness dr])"

text \<open>The verdict after a run of reasons: no failure so far and none among them.\<close>

definition passes :: "bool \<Rightarrow> reason list \<Rightarrow> bool" where
  "passes b rs = (b \<and> list_all (\<lambda>r. \<not> is_failure r) rs)"

text \<open>The features to which checks 2 and 3 apply.\<close>

definition content_applies :: "string option \<Rightarrow> bool" where
  "content_applies ai = (ai = Some ''Cortex LLM'' \<or> ai = Some ''Cortex Search / RAG'')"

definition json_applies :: "string option \<Rightarrow> bool" where
  "json_applies ai = (ai = Some ''Cortex Extract'')"

text \<open>
  Statistics that hold dictionaries where the checks expect dictionaries and no \<open>None\<close>
  under the nested \<open>null_percentage\<close>.
\<close>

definition well_formed_stats :: "statistics \<Rightarrow> bool" where
  "well_formed_stats stats =
     ((case sparsity stats of
         Absent \<Rightarrow> True | PyNone \<Rightarrow> False | Val sp \<Rightarrow> sp_null_percentage sp \<noteq> PyNone) \<and>
      content_type stats \<noteq> PyNone \<and> json_structure stats \<noteq> PyNone)"

text \<open>
  Example candidates: an LLM candidate whose statistics hold only a null percentage,
  with a readiness score of 4; a \<open>NOT NULL\<close> text column and the candidate that
  carries its metadata statistics.
\<close>

definition bare_llm_candidate :: "rat \<Rightarrow> candidate" where
  "bare_llm_candidate null_pct =
     (column_candidate ''DB'' ''SCH'' ''TBL'' ''NOTES'')
       \<lparr>c_ai_feature := Val ''Cortex LLM'',
        c_statistics := Val (empty_statistics\<lparr>null_percentage := Val null_pct\<rparr>),
        c_scores := Val \<lparr>business_potential = 4, data_readiness = 4, metadata_quality = 2,
                         governance_risk = 2\<rparr>,
        c_total_score := Val 12\<rparr>"

text \<open>The reasons of a whole evaluation, in the order of the checks.\<close>

definition confirmation_reasons ::
  "confirm_config \<Rightarrow> string option \<Rightarrow> rat \<Rightarrow> rat option \<Rightarrow> bool option \<Rightarrow> bool option \<Rightarrow> rat \<Rightarrow>
   reason list" where
  "confirmation_reasons cfg ai n al nl jv dr =
     sparsity_reasons cfg n @
     (if content_applies ai then content_reasons cfg al nl else []) @
     (if json_applies ai then json_reasons jv else []) @
     readiness_reasons cfg dr"

definition not_null_column :: column_meta where
  "not_null_column =
     \<lparr>column_name = Some ''NOTES'', data_type = ''VARCHAR'', character_maximum_length = Val 2000,
      cm_numeric_precision = PyNone, cm_numeric_scale = PyNone, cm_is_nullable = Val ''NO'',
      column_comment = ''free text''\<rparr>"

definition not_null_candidate :: candidate where
  "not_null_candidate =
     (bare_llm_candidate 0)
       \<lparr>c_statistics := Val (compute_column_metadata_stats not_null_column empty_table_meta)\<rparr>"

section \<open>The classifier rule and example columns\<close>

text \<open>
  The rule of the LLM classifier in the words of the specification: the declared type
  is textual, and the declared length is at least 500 or the name contains a text
  indicator, case-insensitively.
\<close>

definition llm_rule :: "column_row \<Rightarrow> bool" where
  "llm_rule row =
     (case r_data_type row of
        None \<Rightarrow> False
      | Some dt \<Rightarrow>
          list_ex (\<lambda>t. sublist t (upper dt)) [''VARCHAR'', ''TEXT'', ''STRING'', ''CHAR''] \<and>
          ((case r_max_len row of None \<Rightarrow> False | Some n \<Rightarrow> n \<ge> 500) \<or>
           (case r_column_name row of
              None \<Rightarrow> False
            | Some name \<Rightarrow> list_ex (\<lambda>ind. sublist ind (upper name)) text_indicators)))"

text \<open>Example rows: the column of scenario A, and a short column with a semantic name.\<close>

definition description_row :: column_row where
  "description_row =
     \<lparr>r_database = Some ''DB'', r_schema = Some ''SCH'', r_table = Some ''TBL'',
      r_column_name = Some ''DESCRIPTION'', r_data_type = Some ''VARCHAR'',
      r_max_len = Some 2000, r_comment = None\<rparr>"

definition short_named_row :: column_row where
  "short_named_row =
     \<lparr>r_database = Some ''DB'', r_schema = Some ''SCH'', r_table = Some ''TBL'',
      r_column_name = Some ''review_text'', r_data_type = Some ''varchar'',
      r_max_len = Some 100, r_comment = None\<rparr>"

text \<open>A nullable text column whose declared length is 0.\<close>

definition zero_length_column :: column_meta where
  "zero_length_column =
     \<lparr>column_name = Some ''NOTES'', data_type = ''VARCHAR'', character_maximum_length = Val 0,
      cm_numeric_precision = PyNone, cm_numeric_scale = PyNone, cm_is_nullable = Val ''YES'',
      column_comment = []\<rparr>"

section \<open>Properties\<close>

subsection \<open>Rounding\<close>


lemma rhe_int: "round_half_even (of_int k) = k"
  unfolding round_half_even_def Let_def by simp









subsection \<open>Ranges of the dimension scores\<close>








subsection \<open>Table readiness\<close>



subsection \<open>Freshness\<close>

lemma fresh_steps:
  "score_freshness p now (tm\<lparr>last_altered := Val (TimeStamp d)\<rparr>) =
     (let a = (now - utc_instant d) div microseconds_per_day
      in if a \<le> 7 then 100 else if a \<le> 30 then 80 else if a \<le> 90 then 50
         else if a \<le> 180 then 25 else 10)"
  by (cases "utc_offset d") (simp_all add: score_freshness_def utc_instant_def Let_def)

text \<open>
  C9. The freshness score is a step function of the age of \<open>last_altered\<close> in whole
  days (\<open>timedelta.days\<close>): at most 7 gives 100, at most 30 gives 80, at most 90
  gives 50, at most 180 gives 25 and more than 180 gives 10. A missing, \<open>None\<close> or
  empty value and a string that \<open>fromisoformat\<close> rejects give 0. A naive timestamp
  scores as the same clock reading in UTC. A value 5 days old scores 100, one 45 days old
  scores 50.
\<close>

theorem score_freshness_steps:
  "(get_field (last_altered tm) = None \<or> last_altered tm = Val (TimeString []) \<longrightarrow>
      score_freshness fromisoformat now tm = 0) \<and>
   (last_altered tm = Val (TimeString s) \<and> fromisoformat (replace_Z s) = None \<longrightarrow>
      score_freshness fromisoformat now tm = 0) \<and>
   (last_altered tm = Val (TimeStamp d) \<or>
    (s \<noteq> [] \<and> last_altered tm = Val (TimeString s) \<and> fromisoformat (replace_Z s) = Some d) \<longrightarrow>
      (let age_days = (now - utc_instant d) div microseconds_per_day
       in (age_days \<le> 7 \<longrightarrow> score_freshness fromisoformat now tm = 100) \<and>
          (7 < age_days \<and> age_days \<le> 30 \<longrightarrow> score_freshness fromisoformat now tm = 80) \<and>
          (30 < age_days \<and> age_days \<le> 90 \<longrightarrow> score_freshness fromisoformat now tm = 50) \<and>
          (90 < age_days \<and> age_days \<le> 180 \<longrightarrow> score_freshness fromisoformat now tm = 25) \<and>
          (180 < age_days \<longrightarrow> score_freshness fromisoformat now tm = 10))) \<and>
   (utc_offset d = None \<longrightarrow>
      score_freshness fromisoformat now (tm\<lparr>last_altered := Val (TimeStamp d)\<rparr>) =
      score_freshness fromisoformat now
        (tm\<lparr>last_altered := Val (TimeStamp (d\<lparr>utc_offset := Some 0\<rparr>))\<rparr>)) \<and>
   (utc_instant d = now - 5 * microseconds_per_day \<longrightarrow>
      score_freshness fromisoformat now (tm\<lparr>last_altered := Val (TimeStamp d)\<rparr>) = 100) \<and>
   (utc_instant d = now - 45 * microseconds_per_day \<longrightarrow>
      score_freshness fromisoformat now (tm\<lparr>last_altered := Val (TimeStamp d)\<rparr>) = 50)"
proof -
  have missing: "get_field (last_altered tm) = None \<or> last_altered tm = Val (TimeString []) \<longrightarrow>
      score_freshness fromisoformat now tm = 0"
    by (auto simp: score_freshness_def)
  have unparsed: "last_altered tm = Val (TimeString s) \<and> fromisoformat (replace_Z s) = None \<longrightarrow>
      score_freshness fromisoformat now tm = 0"
    by (auto simp: score_freshness_def split: list.splits)
  have eq: "score_freshness fromisoformat now tm =
     (let a = (now - utc_instant d) div microseconds_per_day
      in if a \<le> 7 then 100 else if a \<le> 30 then 80 else if a \<le> 90 then 50
         else if a \<le> 180 then 25 else 10)"
    if "last_altered tm = Val (TimeStamp d) \<or>
      (s \<noteq> [] \<and> last_altered tm = Val (TimeString s) \<and> fromisoformat (replace_Z s) = Some d)"
    using that
    by (cases "utc_offset d")
      (auto simp: score_freshness_def utc_instant_def Let_def split: list.splits)
  have steps: "last_altered tm = Val (TimeStamp d) \<or>
    (s \<noteq> [] \<and> last_altered tm = Val (TimeString s) \<and> fromisoformat (replace_Z s) = Some d) \<longrightarrow>
      (let age_days = (now - utc_instant d) div microseconds_per_day
       in (age_days \<le> 7 \<longrightarrow> score_freshness fromisoformat now tm = 100) \<and>
          (7 < age_days \<and> age_days \<le> 30 \<longrightarrow> score_freshness fromisoformat now tm = 80) \<and>
          (30 < age_days \<and> age_days \<le> 90 \<longrightarrow> score_freshness fromisoformat now tm = 50) \<and>
          (90 < age_days \<and> age_days \<le> 180 \<longrightarrow> score_freshness fromisoformat now tm = 25) \<and>
          (180 < age_days \<longrightarrow> score_freshness fromisoformat now tm = 10))"
  proof
    assume h: "last_altered tm = Val (TimeStamp d) \<or>
      (s \<noteq> [] \<and> last_altered tm = Val (TimeString s) \<and> fromisoformat (replace_Z s) = Some d)"
    show "(let age_days = (now - utc_instant d) div microseconds_per_day
       in (age_days \<le> 7 \<longrightarrow> score_freshness fromisoformat now tm = 100) \<and>
          (7 < age_days \<and> age_days \<le> 30 \<longrightarrow> score_freshness fromisoformat now tm = 80) \<and>
          (30 < age_days \<and> age_days \<le> 90 \<longrightarrow> score_freshness fromisoformat now tm = 50) \<and>
          (90 < age_days \<and> age_days \<le> 180 \<longrightarrow> score_freshness fromisoformat now tm = 25) \<and>
          (180 < age_days \<longrightarrow> score_freshness fromisoformat now tm = 10))"
      unfolding eq [OF h] Let_def by simp
  qed
  have naive: "utc_offset d = None \<longrightarrow>
      score_freshness fromisoformat now (tm\<lparr>last_altered := Val (TimeStamp d)\<rparr>) =
      score_freshness fromisoformat now
        (tm\<lparr>last_altered := Val (TimeStamp (d\<lparr>utc_offset := Some 0\<rparr>))\<rparr>)"
    by (simp add: fresh_steps utc_instant_def)
  have five: "utc_instant d = now - 5 * microseconds_per_day \<longrightarrow>
      score_freshness fromisoformat now (tm\<lparr>last_altered := Val (TimeStamp d)\<rparr>) = 100"
    by (simp add: fresh_steps microseconds_per_day_def)
  have fortyfive: "utc_instant d = now - 45 * microseconds_per_day \<longrightarrow>
      score_freshness fromisoformat now (tm\<lparr>last_altered := Val (TimeStamp d)\<rparr>) = 50"
    by (simp add: fresh_steps microseconds_per_day_def)
  from missing unparsed steps naive five fortyfive show ?thesis by blast
qed

theorem score_freshness_steps_witness:
  "get_field (last_altered empty_table_meta) = None \<and>
   score_freshness no_parser 0 empty_table_meta = 0 \<and>
   utc_instant \<lparr>wall_clock = 0, utc_offset = None\<rparr> =
     5 * microseconds_per_day - 5 * microseconds_per_day \<and>
   score_freshness no_parser (5 * microseconds_per_day)
     (empty_table_meta\<lparr>last_altered := Val (TimeStamp \<lparr>wall_clock = 0, utc_offset = None\<rparr>)\<rparr>) = 100 \<and>
   utc_instant \<lparr>wall_clock = 0, utc_offset = None\<rparr> =
     45 * microseconds_per_day - 45 * microseconds_per_day \<and>
   score_freshness no_parser (45 * microseconds_per_day)
     (empty_table_meta\<lparr>last_altered := Val (TimeStamp \<lparr>wall_clock = 0, utc_offset = None\<rparr>)\<rparr>) = 50"
  using score_freshness_steps [where tm = empty_table_meta and fromisoformat = no_parser
      and now = 0]
    score_freshness_steps [where tm = empty_table_meta and fromisoformat = no_parser
      and now = "5 * microseconds_per_day" and d = "\<lparr>wall_clock = 0, utc_offset = None\<rparr>"]
    score_freshness_steps [where tm = empty_table_meta and fromisoformat = no_parser
      and now = "45 * microseconds_per_day" and d = "\<lparr>wall_clock = 0, utc_offset = None\<rparr>"]
  by (simp add: empty_table_meta_def utc_instant_def)

subsection \<open>Data readiness scorers\<close>

lemma py_round2_Ints: "x * 100 \<in> \<int> \<Longrightarrow> py_round2 x = x"
proof -
  assume "x * 100 \<in> \<int>"
  then obtain k where k: "x * 100 = of_int k" by (rule Ints_cases)
  then have "round_half_even (x * 100) = k" by (simp only: rhe_int)
  then have "py_round2 x = of_int k / 100" by (simp add: py_round2_def)
  also have "\<dots> = x" using k by simp
  finally show ?thesis .
qed

lemma py_round2_halves: "2 * x \<in> \<int> \<Longrightarrow> py_round2 x = x"
proof -
  assume "2 * x \<in> \<int>"
  moreover have "(50::rat) \<in> \<int>" by simp
  ultimately have "50 * (2 * x) \<in> \<int>" by (simp only: Ints_mult)
  then have "x * 100 \<in> \<int>" by (simp add: mult.commute)
  then show ?thesis by (rule py_round2_Ints)
qed

lemma null_rate_points_range:
  "2 * null_rate_points n \<in> \<int> \<and> 0 \<le> null_rate_points n \<and> null_rate_points n \<le> 2"
  by (simp add: null_rate_points_def)

lemma content_points_range:
  "2 * content_points l \<in> \<int> \<and> 0 \<le> content_points l \<and> content_points l \<le> 2"
  by (simp add: content_points_def split: option.splits)

text \<open>
  C2, counterexample. On the example statistics the two scorers differ: the metadata
  scorer gives 5, the sample scorer gives 4, since its third component is the length
  efficiency and not the comment and nullability of the column.
\<close>

theorem readiness_scorers_differ:
  "enhance_data_readiness_score example_candidate (Some example_stats) \<noteq>
   enhance_data_readiness_score_metadata (Some example_stats)"
  by code_simp

lemma metadata_score_eq:
  assumes "st \<noteq> empty_statistics" and "get_default (null_percentage st) 50 = Some n"
  shows "enhance_data_readiness_score_metadata (Some st) =
     Some (null_rate_points n + content_points (get_field (avg_length st)) +
        (if has_comment st = Val True \<and> is_nullable st = Val ''NO'' then 1
         else if has_comment st = Val True \<or> is_nullable st = Val ''NO'' then 1 / 2
         else 0))"
proof -
  define a where "a = null_rate_points n"
  define b where "b = content_points (get_field (avg_length st))"
  define c :: rat where "c =
        (if has_comment st = Val True \<and> is_nullable st = Val ''NO'' then 1
         else if has_comment st = Val True \<or> is_nullable st = Val ''NO'' then 1 / 2
         else 0)"
  have ra: "2 * a \<in> \<int> \<and> 0 \<le> a \<and> a \<le> 2" unfolding a_def by (rule null_rate_points_range)
  have rb: "2 * b \<in> \<int> \<and> 0 \<le> b \<and> b \<le> 2" unfolding b_def by (rule content_points_range)
  have rc: "2 * c \<in> \<int> \<and> 0 \<le> c \<and> c \<le> 1" by (simp add: c_def)
  have "2 * (a + b + c) = 2 * a + 2 * b + 2 * c" by simp
  with ra rb rc have i1: "2 * (a + b + c) \<in> \<int>" by (simp only: Ints_add)
  have le1: "a + b + c \<le> 5" using ra rb rc by linarith
  have m: "enhance_data_readiness_score_metadata (Some st) = Some (py_round2 (min (a + b + c) 5))"
    using assms
    by (cases "has_comment st"; cases "is_nullable st")
       (auto simp: enhance_data_readiness_score_metadata_def a_def b_def c_def Let_def)
  show ?thesis
    using m le1 py_round2_halves [OF i1] by (simp add: min_def a_def b_def c_def)
qed

lemma sample_score_eq:
  assumes "st \<noteq> empty_statistics" and "get_default (null_percentage st) 100 = Some n"
  shows "enhance_data_readiness_score cand (Some st) =
     Some (null_rate_points n + content_points (get_field (avg_length st)) +
        (case (get_field (max_length st), get_field (c_max_length cand)) of
           (Some ml, Some defined_length) \<Rightarrow>
             if 0 < defined_length
             then if 50 < ml / defined_length * 100 then 1
                  else if 25 \<le> ml / defined_length * 100 then 1 / 2 else 0
             else 0
         | _ \<Rightarrow> 0))"
proof -
  define a where "a = null_rate_points n"
  define b where "b = content_points (get_field (avg_length st))"
  define c' :: rat where "c' =
        (case (get_field (max_length st), get_field (c_max_length cand)) of
           (Some ml, Some defined_length) \<Rightarrow>
             if 0 < defined_length
             then if 50 < ml / defined_length * 100 then 1
                  else if 25 \<le> ml / defined_length * 100 then 1 / 2 else 0
             else 0
         | _ \<Rightarrow> 0)"
  have ra: "2 * a \<in> \<int>" unfolding a_def using null_rate_points_range by blast
  have rb: "2 * b \<in> \<int>" unfolding b_def using content_points_range by blast
  have rc': "2 * c' \<in> \<int>"
    by (simp add: c'_def split: option.splits)
  have "2 * (a + b + c') = 2 * a + 2 * b + 2 * c'" by simp
  with ra rb rc' have i2: "2 * (a + b + c') \<in> \<int>" by (simp only: Ints_add)
  have s: "enhance_data_readiness_score cand (Some st) = Some (py_round2 (a + b + c'))"
    using assms
    by (auto simp: enhance_data_readiness_score_def a_def b_def c'_def Let_def
        split: option.splits)
  show ?thesis
    using s py_round2_halves [OF i2] by (simp add: a_def b_def c'_def)
qed

lemma metadata_score_range:
  assumes "enhance_data_readiness_score_metadata stats = Some x"
  shows "0 \<le> x \<and> x \<le> 5"
proof (cases "stats = None \<or> stats = Some empty_statistics")
  case True
  with assms show ?thesis
    by (auto simp: enhance_data_readiness_score_metadata_def)
next
  case False
  then obtain st where st: "stats = Some st" "st \<noteq> empty_statistics" by auto
  from assms st obtain n where n: "get_default (null_percentage st) 50 = Some n"
    by (cases "get_default (null_percentage st) 50")
       (auto simp: enhance_data_readiness_score_metadata_def)
  have "0 \<le> null_rate_points n \<and> null_rate_points n \<le> 2"
    using null_rate_points_range by blast
  moreover have "0 \<le> content_points (get_field (avg_length st)) \<and>
      content_points (get_field (avg_length st)) \<le> 2"
    using content_points_range by blast
  ultimately show ?thesis
    using assms unfolding st metadata_score_eq [OF st(2) n]
    by (auto split: if_splits)
qed

lemma sample_score_range:
  assumes "enhance_data_readiness_score cand stats = Some x"
  shows "0 \<le> x \<and> x \<le> 5"
proof (cases "stats = None \<or> stats = Some empty_statistics")
  case True
  with assms show ?thesis
    by (auto simp: enhance_data_readiness_score_def)
next
  case False
  then obtain st where st: "stats = Some st" "st \<noteq> empty_statistics" by auto
  from assms st obtain n where n: "get_default (null_percentage st) 100 = Some n"
    by (cases "get_default (null_percentage st) 100")
       (auto simp: enhance_data_readiness_score_def)
  have "0 \<le> null_rate_points n \<and> null_rate_points n \<le> 2"
    using null_rate_points_range by blast
  moreover have "0 \<le> content_points (get_field (avg_length st)) \<and>
      content_points (get_field (avg_length st)) \<le> 2"
    using content_points_range by blast
  ultimately show ?thesis
    using assms unfolding st sample_score_eq [OF st(2) n]
    by (auto split: if_splits option.splits)
qed

text \<open>
  C2, as amended. The metadata scorer gives a score in [0, 5]: 2 points for a null
  percentage of at most 10 (1.5 up to 30, 1 up to 50, 0.5 up to 70, 0 above), 2 points
  for an average length of at least 200 (1.5 from 100, 1 from 50, 0.5 for a positive
  length under 50), and 1 point when the column has a comment and is not nullable (0.5
  when exactly one holds). The sample scorer gives the same points for nulls and length,
  and its third component is 1 point when the longest value exceeds half of the declared
  length and 0.5 from a quarter. On the example statistics the metadata score is 5, and
  the candidate re-scored with it is confirmed.
\<close>

theorem metadata_readiness_formula:
  assumes "st \<noteq> empty_statistics" and "null_percentage st = Val n"
  shows "(\<exists>score. enhance_data_readiness_score_metadata (Some st) = Some score \<and>
      0 \<le> score \<and> score \<le> 5 \<and>
      score =
        (if n \<le> 10 then 2 else if n \<le> 30 then 3 / 2 else if n \<le> 50 then 1
         else if n \<le> 70 then 1 / 2 else 0) +
        (case get_field (avg_length st) of
           None \<Rightarrow> 0
         | Some l \<Rightarrow> if 200 \<le> l then 2 else if 100 \<le> l then 3 / 2 else if 50 \<le> l then 1
                    else if 0 < l then 1 / 2 else 0) +
        (if has_comment st = Val True \<and> is_nullable st = Val ''NO'' then 1
         else if has_comment st = Val True \<or> is_nullable st = Val ''NO'' then 1 / 2
         else 0)) \<and>
    (\<exists>score. enhance_data_readiness_score cand (Some st) = Some score \<and>
      0 \<le> score \<and> score \<le> 5 \<and>
      score =
        (if n \<le> 10 then 2 else if n \<le> 30 then 3 / 2 else if n \<le> 50 then 1
         else if n \<le> 70 then 1 / 2 else 0) +
        (case get_field (avg_length st) of
           None \<Rightarrow> 0
         | Some l \<Rightarrow> if 200 \<le> l then 2 else if 100 \<le> l then 3 / 2 else if 50 \<le> l then 1
                    else if 0 < l then 1 / 2 else 0) +
        (case (get_field (max_length st), get_field (c_max_length cand)) of
           (Some ml, Some defined_length) \<Rightarrow>
             if 0 < defined_length
             then if 50 < ml / defined_length * 100 then 1
                  else if 25 \<le> ml / defined_length * 100 then 1 / 2 else 0
             else 0
         | _ \<Rightarrow> 0)) \<and>
    enhance_data_readiness_score_metadata (Some example_stats) = Some 5 \<and>
    Option.bind (rescore_metadata example_candidate)
        (\<lambda>c. is_confirmed_candidate default_config c None) =
      Some (True, [Good_completeness 95, Substantial_content 250, Good_data_readiness 5])"
proof -
  have n50: "get_default (null_percentage st) 50 = Some n"
    and n100: "get_default (null_percentage st) 100 = Some n"
    using assms(2) by simp_all
  note m = metadata_score_eq [OF assms(1) n50]
  note s = sample_score_eq [OF assms(1) n100, of cand]
  have rm: "0 \<le> x \<and> x \<le> 5" if "enhance_data_readiness_score_metadata (Some st) = Some x" for x
    using that by (rule metadata_score_range)
  have rs: "0 \<le> x \<and> x \<le> 5" if "enhance_data_readiness_score cand (Some st) = Some x" for x
    using that by (rule sample_score_range)
  have ex: "enhance_data_readiness_score_metadata (Some example_stats) = Some 5"
    by code_simp
  have conf: "Option.bind (rescore_metadata example_candidate)
        (\<lambda>c. is_confirmed_candidate default_config c None) =
      Some (True, [Good_completeness 95, Substantial_content 250, Good_data_readiness 5])"
    by code_simp
  show ?thesis
    using m s rm [OF m] rs [OF s] ex conf
    unfolding null_rate_points_def content_points_def
    by simp
qed

theorem metadata_readiness_formula_witness:
  "example_stats \<noteq> empty_statistics \<and> null_percentage example_stats = Val 5 \<and>
   enhance_data_readiness_score_metadata (Some example_stats) = Some 5 \<and>
   enhance_data_readiness_score example_candidate (Some example_stats) = Some 4"
proof -
  have h1: "example_stats \<noteq> empty_statistics"
    by (simp add: example_stats_def empty_statistics_def)
  have h2: "null_percentage example_stats = Val 5"
    by (simp add: example_stats_def)
  show ?thesis
    using h1 h2 metadata_readiness_formula [OF h1 h2, of example_candidate]
    by (auto simp: example_stats_def example_candidate_def column_candidate_def
        empty_statistics_def)
qed

subsection \<open>Candidate scores\<close>

lemma profile_readiness_range:
  "profile_readiness p 3 = Some dr \<Longrightarrow> dr \<in> {3, 4, 5}"
  by (auto simp: profile_readiness_def Let_def split: if_splits Option.bind_splits)

lemma score_candidate_scored:
  assumes "score_candidate c ps = Some c'"
  shows "\<exists>s. c_scores c' = Val s \<and> dims_in_range s \<and> c_total_score c' = Val (sum_scores s)"
proof -
  from assms obtain dr where
    dr: "(case find (\<lambda>p. (p_database p, p_schema p, p_table p, p_column p) =
                                candidate_identity c) ps of
               None \<Rightarrow> Some 3
             | Some p \<Rightarrow> profile_readiness p 3) = Some dr"
    by (auto simp: score_candidate_def Let_def split: Option.bind_splits)
  then have "dr \<in> {3, 4, 5}"
    by (auto split: option.splits dest: profile_readiness_range)
  then show ?thesis
    using assms dr
    by (auto simp: score_candidate_def Let_def dims_in_range_def sum_scores_def
        split: option.splits)
qed

lemma set_data_readiness_scored:
  assumes "set_data_readiness c x = Some c'" and "0 \<le> x" and "x \<le> 5"
    and "case c_scores c of Val s \<Rightarrow> dims_in_range s | _ \<Rightarrow> True"
  shows "\<exists>s. c_scores c' = Val s \<and> dims_in_range s \<and> data_readiness s = x \<and>
     c_total_score c' = Val (sum_scores s)"
  using assms
  by (cases "c_scores c")
     (auto simp: set_data_readiness_def Let_def dims_in_range_def default_scores_def)


lemma dims_in_range_sum: "dims_in_range s \<Longrightarrow> 0 \<le> sum_scores s \<and> sum_scores s \<le> 20"
  by (simp add: dims_in_range_def sum_scores_def)

lemma rescore_metadata_scored:
  assumes "rescore_metadata c = Some c'"
    and "case c_scores c of Val s \<Rightarrow> dims_in_range s | _ \<Rightarrow> True"
  shows "(c_total_score c' = c_total_score c \<and> c_scores c' = c_scores c) \<or>
     (\<exists>s. c_scores c' = Val s \<and> dims_in_range s \<and> c_total_score c' = Val (sum_scores s))"
proof -
  define stats where "stats = (case c_statistics c of
       Absent \<Rightarrow> Some empty_statistics | PyNone \<Rightarrow> None | Val s \<Rightarrow> Some s)"
  show ?thesis
  proof (cases "stats \<noteq> None \<and> stats \<noteq> Some empty_statistics")
    case False
    with assms(1) have "c' = c"
      by (auto simp: rescore_metadata_def Let_def stats_def [symmetric])
    then show ?thesis by simp
  next
    case True
    with assms(1) obtain x where
      x: "enhance_data_readiness_score_metadata stats = Some x"
      and set: "set_data_readiness c x = Some c'"
      by (auto simp: rescore_metadata_def Let_def stats_def [symmetric]
          split: Option.bind_splits)
    from metadata_score_range [OF x] set_data_readiness_scored [OF set _ _ assms(2)]
    show ?thesis by blast
  qed
qed

lemma rescore_sample_scored:
  assumes "rescore_sample c = Some c'"
    and "case c_scores c of Val s \<Rightarrow> dims_in_range s | _ \<Rightarrow> True"
  shows "(c_total_score c' = c_total_score c \<and> c_scores c' = c_scores c) \<or>
     (\<exists>s. c_scores c' = Val s \<and> dims_in_range s \<and> c_total_score c' = Val (sum_scores s))"
proof (cases "c_statistics c = Absent")
  case True
  with assms(1) have "c' = c" by (simp add: rescore_sample_def)
  then show ?thesis by simp
next
  case False
  with assms(1) obtain x where
    x: "enhance_data_readiness_score c (get_field (c_statistics c)) = Some x"
    and set: "set_data_readiness c x = Some c'"
    by (cases "c_statistics c") (auto simp: rescore_sample_def split: Option.bind_splits)
  from sample_score_range [OF x] set_data_readiness_scored [OF set _ _ assms(2)]
  show ?thesis by blast
qed

lemma rescore_full_scan_scored:
  assumes "rescore_full_scan c st = Some c'"
    and "case c_scores c of Val s \<Rightarrow> dims_in_range s | _ \<Rightarrow> True"
  shows "(c_total_score c' = c_total_score c \<and> c_scores c' = c_scores c) \<or>
     (\<exists>s. c_scores c' = Val s \<and> dims_in_range s \<and> c_total_score c' = Val (sum_scores s))"
proof -
  define d where "d = c\<lparr>c_statistics := Val st\<rparr>"
  have sc: "c_scores d = c_scores c" by (simp add: d_def)
  from assms(1) obtain x where
    x: "enhance_data_readiness_score d (Some st) = Some x"
    and rest: "(case c_scores c of Absent \<Rightarrow> Some d | _ \<Rightarrow> set_data_readiness d x) = Some c'"
    unfolding rescore_full_scan_def Let_def d_def [symmetric] sc
    by (auto split: Option.bind_splits)
  have pre: "case c_scores d of Val s \<Rightarrow> dims_in_range s | _ \<Rightarrow> True"
    using assms(2) by (simp add: d_def)
  show ?thesis
  proof (cases "c_scores c = Absent")
    case True
    with rest have "c' = d" by simp
    then show ?thesis by (simp add: d_def)
  next
    case False
    with rest have set: "set_data_readiness d x = Some c'"
      by (cases "c_scores c") simp_all
    from sample_score_range [OF x] set_data_readiness_scored [OF set _ _ pre]
    show ?thesis by blast
  qed
qed

lemma score_candidate_returns: "score_candidate c [] \<noteq> None"
  by (simp add: score_candidate_def Let_def)

text \<open>
  C1. A candidate scored by \<open>score_candidate\<close> has four dimension scores between 0
  and 5 and a \<open>total_score\<close> equal to their sum, which lies between 0 and 20. Each
  re-scoring pass (metadata, sample, full scan), run on a candidate without scores or
  with dimension scores between 0 and 5, either leaves scores and total as they are or
  leaves the candidate with dimension scores between 0 and 5 and a total equal to their
  sum: the total is only ever assigned the sum. Without text profiles
  \<open>score_candidate\<close> always returns.
\<close>

theorem total_score_is_sum:
  "(score_candidate c ps = Some c' \<longrightarrow>
      (\<exists>s. c_scores c' = Val s \<and> dims_in_range s \<and>
           c_total_score c' = Val (business_potential s + data_readiness s +
                                   metadata_quality s + governance_risk s) \<and>
           0 \<le> business_potential s + data_readiness s + metadata_quality s + governance_risk s \<and>
           business_potential s + data_readiness s + metadata_quality s + governance_risk s \<le> 20)) \<and>
   ((case c_scores c of Val s \<Rightarrow> dims_in_range s | _ \<Rightarrow> True) \<and>
    (rescore_metadata c = Some c' \<or> rescore_sample c = Some c' \<or>
     rescore_full_scan c st = Some c') \<longrightarrow>
      (c_total_score c' = c_total_score c \<and> c_scores c' = c_scores c) \<or>
      (\<exists>s. c_scores c' = Val s \<and> dims_in_range s \<and>
           c_total_score c' = Val (business_potential s + data_readiness s +
                                   metadata_quality s + governance_risk s) \<and>
           0 \<le> business_potential s + data_readiness s + metadata_quality s + governance_risk s \<and>
           business_potential s + data_readiness s + metadata_quality s + governance_risk s \<le> 20)) \<and>
   score_candidate c [] \<noteq> None"
  using score_candidate_scored [of c ps c'] rescore_metadata_scored [of c c']
    rescore_sample_scored [of c c'] rescore_full_scan_scored [of c st c']
    score_candidate_returns [of c] dims_in_range_sum
  unfolding sum_scores_def
  by (intro conjI impI) blast+

theorem total_score_is_sum_witness:
  "map_option c_total_score (score_candidate example_candidate []) = Some (Val 11) \<and>
   map_option c_total_score
     (rescore_metadata (the (score_candidate example_candidate []))) = Some (Val 13)"
proof -
  define c1 where "c1 = the (score_candidate example_candidate [])"
  define c2 where "c2 = the (rescore_metadata c1)"
  have s1: "score_candidate example_candidate [] = Some c1"
    unfolding c1_def using score_candidate_returns [of example_candidate] by auto
  have v1: "c_scores c1 = Val \<lparr>business_potential = 4, data_readiness = 3,
       metadata_quality = 2, governance_risk = 2\<rparr>"
    unfolding c1_def by code_simp
  have s2: "rescore_metadata c1 = Some c2"
    unfolding c2_def c1_def by code_simp
  have v2: "c_scores c2 = Val \<lparr>business_potential = 4, data_readiness = 5,
       metadata_quality = 2, governance_risk = 2\<rparr>"
    unfolding c2_def c1_def by code_simp
  have pre: "case c_scores c1 of Val s \<Rightarrow> dims_in_range s | _ \<Rightarrow> True"
    by (simp add: v1 dims_in_range_def)
  from total_score_is_sum [of example_candidate "[]" c1] s1 v1
  have t1: "c_total_score c1 = Val 11" by auto
  from total_score_is_sum [of c1 "[]" c2] s2 pre v1 v2
  have t2: "c_total_score c2 = Val 13" by auto
  show ?thesis
    using s1 s2 t1 t2 by (simp add: c1_def [symmetric] c2_def [symmetric])
qed

subsection \<open>Confirmation\<close>

lemma check_sparsity_eq:
  "read_null_pct stats = Some n \<Longrightarrow>
   check_sparsity cfg stats (b, rs) =
     Some (passes b (sparsity_reasons cfg n), rs @ sparsity_reasons cfg n)"
  by (simp add: check_sparsity_def sparsity_reasons_def passes_def)

lemma check_content_eq:
  "read_avg_len stats = Some al \<Longrightarrow> read_is_nl stats = Some nl \<Longrightarrow>
   ai = Some ''Cortex LLM'' \<or> ai = Some ''Cortex Search / RAG'' \<Longrightarrow>
   check_content cfg ai stats (b, rs) =
     Some (passes b (content_reasons cfg al nl), rs @ content_reasons cfg al nl)"
  by (cases al; cases nl)
     (auto simp: check_content_def content_reasons_def passes_def Let_def)

lemma check_content_skip:
  "\<not> (ai = Some ''Cortex LLM'' \<or> ai = Some ''Cortex Search / RAG'') \<Longrightarrow>
   check_content cfg ai stats state = Some state"
  by (simp add: check_content_def)

lemma check_json_eq:
  "read_json_valid stats = Some jv \<Longrightarrow> ai = Some ''Cortex Extract'' \<Longrightarrow>
   check_json ai stats (b, rs) = Some (passes b (json_reasons jv), rs @ json_reasons jv)"
  by (cases jv) (auto simp: check_json_def json_reasons_def passes_def)

lemma check_json_skip:
  "ai \<noteq> Some ''Cortex Extract'' \<Longrightarrow> check_json ai stats state = Some state"
  by (simp add: check_json_def)

lemma check_readiness_eq:
  "read_data_readiness c = Some dr \<Longrightarrow>
   check_readiness cfg c (b, rs) =
     Some (passes b (readiness_reasons cfg dr), rs @ readiness_reasons cfg dr)"
  by (simp add: check_readiness_def readiness_reasons_def passes_def)

lemma passes_append: "passes (passes b xs) ys = passes b (xs @ ys)"
  by (auto simp: passes_def)

lemma is_confirmed_eq:
  assumes st: "confirmation_stats c profile = Some stats"
    and n: "read_null_pct stats = Some n"
    and ct: "content_applies (get_default (c_ai_feature c) []) \<Longrightarrow>
             read_avg_len stats = Some al \<and> read_is_nl stats = Some nl"
    and js: "json_applies (get_default (c_ai_feature c) []) \<Longrightarrow>
             read_json_valid stats = Some jv"
    and dr: "read_data_readiness c = Some dr"
  shows "is_confirmed_candidate cfg c profile =
     Some (passes True
             (sparsity_reasons cfg n @
              (if content_applies (get_default (c_ai_feature c) [])
               then content_reasons cfg al nl else []) @
              (if json_applies (get_default (c_ai_feature c) []) then json_reasons jv else []) @
              readiness_reasons cfg dr),
           sparsity_reasons cfg n @
           (if content_applies (get_default (c_ai_feature c) [])
            then content_reasons cfg al nl else []) @
           (if json_applies (get_default (c_ai_feature c) []) then json_reasons jv else []) @
           readiness_reasons cfg dr)"
proof -
  define ai where "ai = get_default (c_ai_feature c) []"
  define r1 where "r1 = sparsity_reasons cfg n"
  define r2 where "r2 = (if content_applies ai then content_reasons cfg al nl else [])"
  define r3 where "r3 = (if json_applies ai then json_reasons jv else [])"
  define r4 where "r4 = readiness_reasons cfg dr"
  have s1: "check_sparsity cfg stats (True, []) = Some (passes True r1, r1)"
    using check_sparsity_eq [OF n, of cfg True "[]"] by (simp add: r1_def)
  have s2: "check_content cfg ai stats (passes True r1, r1) = Some (passes True (r1 @ r2), r1 @ r2)"
  proof (cases "content_applies ai")
    case True
    with ct have "read_avg_len stats = Some al" "read_is_nl stats = Some nl"
      by (simp_all add: ai_def)
    from check_content_eq [OF this, of ai cfg "passes True r1" r1] True
    show ?thesis by (simp add: r2_def passes_append content_applies_def)
  next
    case False
    then show ?thesis
      by (simp add: r2_def check_content_skip content_applies_def)
  qed
  have s3: "check_json ai stats (passes True (r1 @ r2), r1 @ r2) =
      Some (passes True (r1 @ r2 @ r3), r1 @ r2 @ r3)"
  proof (cases "json_applies ai")
    case True
    with js have "read_json_valid stats = Some jv" by (simp add: ai_def)
    from check_json_eq [OF this, of ai "passes True (r1 @ r2)" "r1 @ r2"] True
    show ?thesis by (simp add: r3_def passes_append json_applies_def)
  next
    case False
    then show ?thesis
      by (simp add: r3_def check_json_skip json_applies_def)
  qed
  have s4: "check_readiness cfg c (passes True (r1 @ r2 @ r3), r1 @ r2 @ r3) =
      Some (passes True (r1 @ r2 @ r3 @ r4), r1 @ r2 @ r3 @ r4)"
    using check_readiness_eq [OF dr, of cfg "passes True (r1 @ r2 @ r3)" "r1 @ r2 @ r3"]
    by (simp add: r4_def passes_append)
  have "is_confirmed_candidate cfg c profile =
      Some (passes True (r1 @ r2 @ r3 @ r4), r1 @ r2 @ r3 @ r4)"
    by (simp add: is_confirmed_candidate_def st Let_def ai_def [symmetric] s1 s2 s3 s4)
  then show ?thesis
    by (simp add: r1_def r2_def r3_def r4_def ai_def)
qed

lemma truthy_num_Some: "truthy_num x \<Longrightarrow> \<exists>y. x = Some y"
  by (cases x) auto

lemma get_default_None: "get_default f d = None \<longleftrightarrow> f = PyNone"
  by (cases f) auto

lemma get_default_Some: "f \<noteq> PyNone \<Longrightarrow> \<exists>y. get_default f d = Some y"
  by (cases f) auto

lemma well_formed_reads:
  assumes "well_formed_stats stats"
  shows "read_null_pct stats \<noteq> None" "read_avg_len stats \<noteq> None"
    "read_is_nl stats \<noteq> None" "read_json_valid stats \<noteq> None"
  using assms
  by (auto simp: well_formed_stats_def read_null_pct_def read_avg_len_def read_is_nl_def
      read_json_valid_def get_default_None dest: truthy_num_Some get_default_Some
      split: field.splits)

lemma confirmed_result:
  assumes st: "confirmation_stats c profile = Some stats"
    and wf: "well_formed_stats stats"
    and sc: "c_scores c \<noteq> PyNone"
  shows "\<exists>n al nl jv dr.
     read_null_pct stats = Some n \<and> read_avg_len stats = Some al \<and>
     read_is_nl stats = Some nl \<and> read_json_valid stats = Some jv \<and>
     read_data_readiness c = Some dr \<and>
     is_confirmed_candidate cfg c profile =
       Some (passes True (confirmation_reasons cfg (get_default (c_ai_feature c) []) n al nl jv dr),
             confirmation_reasons cfg (get_default (c_ai_feature c) []) n al nl jv dr)"
proof -
  from well_formed_reads [OF wf] obtain n al nl jv where
    r: "read_null_pct stats = Some n" "read_avg_len stats = Some al"
       "read_is_nl stats = Some nl" "read_json_valid stats = Some jv"
    by auto
  from sc obtain dr where dr: "read_data_readiness c = Some dr"
    by (cases "c_scores c") (auto simp: read_data_readiness_def)
  from is_confirmed_eq [OF st r(1) _ _ dr, of al nl jv cfg] r dr
  show ?thesis
    unfolding confirmation_reasons_def by blast
qed










lemma confirmation_reasons_hd:
  "hd (confirmation_reasons cfg ai n al nl jv dr) =
     (if n > CONFIRM_MAX_SPARSITY cfg then High_sparsity n else Good_completeness (100 - n))"
  "tl (confirmation_reasons cfg ai n al nl jv dr) =
     (if content_applies ai then content_reasons cfg al nl else []) @
     (if json_applies ai then json_reasons jv else []) @ readiness_reasons cfg dr"
  by (simp_all add: confirmation_reasons_def sparsity_reasons_def)



lemma check_sparsity_SomeD:
  "check_sparsity cfg stats state = Some s' \<Longrightarrow> \<exists>n. read_null_pct stats = Some n"
  by (auto simp: check_sparsity_def split: Option.bind_splits)

lemma check_content_SomeD:
  "check_content cfg ai stats state = Some s' \<Longrightarrow> content_applies ai \<Longrightarrow>
   \<exists>al nl. read_avg_len stats = Some al \<and> read_is_nl stats = Some nl"
  by (auto simp: check_content_def content_applies_def Let_def split: Option.bind_splits)

lemma check_json_SomeD:
  "check_json ai stats state = Some s' \<Longrightarrow> json_applies ai \<Longrightarrow>
   \<exists>jv. read_json_valid stats = Some jv"
  by (auto simp: check_json_def json_applies_def split: Option.bind_splits)

lemma check_readiness_SomeD:
  "check_readiness cfg c state = Some s' \<Longrightarrow> \<exists>dr. read_data_readiness c = Some dr"
  by (auto simp: check_readiness_def split: Option.bind_splits)

lemma is_confirmed_SomeD:
  assumes "is_confirmed_candidate cfg c profile = Some res"
  shows "\<exists>stats n al nl jv dr.
     confirmation_stats c profile = Some stats \<and> read_null_pct stats = Some n \<and>
     read_data_readiness c = Some dr \<and>
     res = (passes True (confirmation_reasons cfg (get_default (c_ai_feature c) []) n al nl jv dr),
            confirmation_reasons cfg (get_default (c_ai_feature c) []) n al nl jv dr)"
proof -
  define ai where "ai = get_default (c_ai_feature c) []"
  from assms obtain stats s1 s2 s3 where
    st: "confirmation_stats c profile = Some stats"
    and c1: "check_sparsity cfg stats (True, []) = Some s1"
    and c2: "check_content cfg ai stats s1 = Some s2"
    and c3: "check_json ai stats s2 = Some s3"
    and c4: "check_readiness cfg c s3 = Some res"
    by (auto simp: is_confirmed_candidate_def Let_def ai_def split: Option.bind_splits)
  from check_sparsity_SomeD [OF c1] obtain n where n: "read_null_pct stats = Some n" ..
  from check_readiness_SomeD [OF c4] obtain dr where dr: "read_data_readiness c = Some dr" ..
  obtain al nl where ct: "content_applies ai \<Longrightarrow>
      read_avg_len stats = Some al \<and> read_is_nl stats = Some nl"
    using check_content_SomeD [OF c2] by (cases "content_applies ai") auto
  obtain jv where js: "json_applies ai \<Longrightarrow> read_json_valid stats = Some jv"
    using check_json_SomeD [OF c3] by (cases "json_applies ai") auto
  from is_confirmed_eq [OF st n _ _ dr, of al nl jv cfg] ct js assms
  have "res = (passes True (confirmation_reasons cfg ai n al nl jv dr),
            confirmation_reasons cfg ai n al nl jv dr)"
    by (simp add: ai_def confirmation_reasons_def)
  with st n dr show ?thesis unfolding ai_def by blast
qed

lemma passes_hd_failure:
  "is_failure (hd (confirmation_reasons cfg ai n al nl jv dr)) \<Longrightarrow>
   \<not> passes True (confirmation_reasons cfg ai n al nl jv dr)"
  by (simp add: passes_def confirmation_reasons_def sparsity_reasons_def split: if_splits)


lemma passes_tl:
  "\<not> is_failure (hd (confirmation_reasons cfg ai n al nl jv dr)) \<Longrightarrow>
   passes True (confirmation_reasons cfg ai n al nl jv dr) \<longleftrightarrow>
   (\<forall>r \<in> set (tl (confirmation_reasons cfg ai n al nl jv dr)). \<not> is_failure r)"
  by (auto simp: passes_def confirmation_reasons_def sparsity_reasons_def list_all_iff
      split: if_splits)




lemma metadata_stats_not_null:
  assumes "cm_is_nullable cm = Val ''NO''"
  shows "null_percentage (compute_column_metadata_stats cm tm) = Val 0"
    and "sparsity (compute_column_metadata_stats cm tm) = Absent"
    and "content_type (compute_column_metadata_stats cm tm) = Absent"
    and "json_structure (compute_column_metadata_stats cm tm) = Absent"
  using assms
  by (simp_all add: compute_column_metadata_stats_def Let_def empty_statistics_def
      split: option.splits)

lemma zero_null_pct_reads_100:
  "null_percentage st = Val 0 \<Longrightarrow> sparsity st = Absent \<Longrightarrow> read_null_pct st = Some 100"
  by (simp add: read_null_pct_def)

lemma confirmation_stats_plain:
  "c_statistics c = Val st \<Longrightarrow> confirmation_stats c None = Some st"
  by (simp add: confirmation_stats_def)

lemma is_confirmed_first_check:
  assumes "is_confirmed_candidate cfg c None = Some (b, rs)" and "c_statistics c = Val st"
    and "read_null_pct st = Some n"
  shows "hd rs = (if n > CONFIRM_MAX_SPARSITY cfg then High_sparsity n
                  else Good_completeness (100 - n))"
    and "n > CONFIRM_MAX_SPARSITY cfg \<Longrightarrow> \<not> b"
    and "\<not> n > CONFIRM_MAX_SPARSITY cfg \<Longrightarrow> b \<longleftrightarrow> (\<forall>r \<in> set (tl rs). \<not> is_failure r)"
proof -
  from is_confirmed_SomeD [OF assms(1)] confirmation_stats_plain [OF assms(2)] assms(3)
  obtain al nl jv dr where
    res: "(b, rs) =
      (passes True (confirmation_reasons cfg (get_default (c_ai_feature c) []) n al nl jv dr),
       confirmation_reasons cfg (get_default (c_ai_feature c) []) n al nl jv dr)"
    by auto
  then have rs: "rs = confirmation_reasons cfg (get_default (c_ai_feature c) []) n al nl jv dr"
    and b: "b = passes True rs"
    by simp_all
  show h: "hd rs = (if n > CONFIRM_MAX_SPARSITY cfg then High_sparsity n
                  else Good_completeness (100 - n))"
    unfolding rs by (rule confirmation_reasons_hd)
  show "\<not> b" if "n > CONFIRM_MAX_SPARSITY cfg"
  proof -
    from that h have "is_failure (hd rs)" by simp
    then show ?thesis unfolding b unfolding rs by (rule passes_hd_failure)
  qed
  show "b \<longleftrightarrow> (\<forall>r \<in> set (tl rs). \<not> is_failure r)" if "\<not> n > CONFIRM_MAX_SPARSITY cfg"
  proof -
    from that h have "\<not> is_failure (hd rs)" by simp
    then show ?thesis unfolding b unfolding rs by (rule passes_tl)
  qed
qed



text \<open>
  C5. With a sparsity threshold below 100, a candidate whose statistics hold a null
  percentage of exactly 0 and no nested \<open>sparsity\<close> entry is not confirmed, and its
  first reason is high sparsity at 100 percent: the \<open>or\<close> chain takes 0 for absent.
  The metadata estimate of a \<open>NOT NULL\<close> column has a null percentage of 0, so a
  candidate that carries it is never confirmed, and its evaluation returns.
\<close>

theorem zero_null_percentage_unconfirmed:
  assumes "CONFIRM_MAX_SPARSITY cfg < 100" and "c_statistics c = Val st"
  shows "(null_percentage st = Val 0 \<and> sparsity st = Absent \<and>
          is_confirmed_candidate cfg c None = Some (b, rs) \<longrightarrow>
            \<not> b \<and> hd rs = High_sparsity 100) \<and>
         (cm_is_nullable cm = Val ''NO'' \<and> st = compute_column_metadata_stats cm tm \<longrightarrow>
            null_percentage st = Val 0 \<and>
            (is_confirmed_candidate cfg c None = Some (b, rs) \<longrightarrow>
               \<not> b \<and> hd rs = High_sparsity 100) \<and>
            (c_scores c \<noteq> PyNone \<longrightarrow> is_confirmed_candidate cfg c None \<noteq> None))"
proof -
  have main: "\<not> b \<and> hd rs = High_sparsity 100"
    if "null_percentage st = Val 0" "sparsity st = Absent"
       "is_confirmed_candidate cfg c None = Some (b, rs)"
  proof -
    from that have n: "read_null_pct st = Some 100" by (simp add: zero_null_pct_reads_100)
    from is_confirmed_first_check(1,2) [OF that(3) assms(2) n] assms(1)
    show ?thesis by simp
  qed
  have meta: "null_percentage st = Val 0 \<and>
            (is_confirmed_candidate cfg c None = Some (b, rs) \<longrightarrow>
               \<not> b \<and> hd rs = High_sparsity 100) \<and>
            (c_scores c \<noteq> PyNone \<longrightarrow> is_confirmed_candidate cfg c None \<noteq> None)"
    if nn: "cm_is_nullable cm = Val ''NO''" and st: "st = compute_column_metadata_stats cm tm"
  proof -
    note f = metadata_stats_not_null [OF nn, of tm, folded st]
    have wf: "well_formed_stats st" using f by (simp add: well_formed_stats_def)
    have ret: "is_confirmed_candidate cfg c None \<noteq> None" if "c_scores c \<noteq> PyNone"
      using confirmed_result [OF confirmation_stats_plain [OF assms(2)] wf that, of cfg]
      by auto
    from f(1) main [OF f(1) f(2)] ret show ?thesis by blast
  qed
  from main meta show ?thesis by blast
qed

theorem zero_null_percentage_unconfirmed_witness:
  "CONFIRM_MAX_SPARSITY default_config < 100 \<and>
   c_statistics not_null_candidate =
     Val (compute_column_metadata_stats not_null_column empty_table_meta) \<and>
   cm_is_nullable not_null_column = Val ''NO'' \<and>
   null_percentage (compute_column_metadata_stats not_null_column empty_table_meta) = Val 0 \<and>
   is_confirmed_candidate default_config not_null_candidate None =
     Some (False, [High_sparsity 100, Substantial_content 600, Good_data_readiness 4])"
proof -
  have h1: "CONFIRM_MAX_SPARSITY default_config < 100" by (simp add: default_config_def)
  have h2: "c_statistics not_null_candidate =
     Val (compute_column_metadata_stats not_null_column empty_table_meta)"
    by (simp add: not_null_candidate_def)
  have h3: "cm_is_nullable not_null_column = Val ''NO''" by (simp add: not_null_column_def)
  have e: "is_confirmed_candidate default_config not_null_candidate None =
     Some (False, [High_sparsity 100, Substantial_content 600, Good_data_readiness 4])"
    by code_simp
  show ?thesis
    using zero_null_percentage_unconfirmed [OF h1 h2, of False
        "[High_sparsity 100, Substantial_content 600, Good_data_readiness 4]"
        not_null_column empty_table_meta] h1 h2 h3 e
    by simp
qed

subsection \<open>The LLM classifier\<close>

lemma contains_sublist: "contains s needle \<longleftrightarrow> sublist needle s"
  by (induction s) (auto simp: sublist_Cons_right)

lemma contains_any_sublist: "contains_any s ts \<longleftrightarrow> list_ex (\<lambda>t. sublist t s) ts"
  by (simp add: contains_any_def contains_sublist list_ex_iff)

lemma llm_loop_eq:
  "llm_loop rows acc = acc @ map llm_candidate (filter llm_rule rows)"
proof (induction rows arbitrary: acc)
  case Nil
  show ?case by simp
next
  case (Cons row rows)
  have flag: "llm_rule row \<longleftrightarrow>
     (\<exists>dt. r_data_type row = Some dt \<and> dt \<noteq> [] \<and> is_text_type (upper dt) \<and>
        (is_long_text (r_max_len row) \<or> has_text_indicator (r_column_name row)))"
    by (cases "r_data_type row"; cases "r_max_len row"; cases "r_column_name row")
       (auto simp: llm_rule_def is_text_type_def is_long_text_def has_text_indicator_def
          contains_any_sublist upper_def text_indicators_def)
  show ?case
    by (cases "r_data_type row") (auto simp: Cons.IH flag)
qed

text \<open>
  C6. \<open>identify_llm_candidates\<close> returns, in input order, a candidate for exactly the
  rows whose declared type contains \<open>VARCHAR\<close>, \<open>TEXT\<close>, \<open>STRING\<close> or
  \<open>CHAR\<close> and whose declared length is at least 500 or whose name contains one of the
  sixteen text indicators, each alone being enough. The reason of a candidate ends in
  \<open>long text\<close> when the length triggered and in \<open>semantic name\<close> otherwise. The
  column \<open>DESCRIPTION\<close> of type \<open>VARCHAR\<close> and length 2000 is classified.
\<close>

theorem llm_classifier:
  "identify_llm_candidates rows = map llm_candidate (filter llm_rule rows) \<and>
   (llm_rule row \<and> r_data_type row = Some dt \<longrightarrow>
      c_ai_feature (llm_candidate row) = Val ''Cortex LLM'' \<and>
      c_reason (llm_candidate row) =
        Val (''Text column ('' @ dt @ '') - '' @
             (if (case r_max_len row of None \<Rightarrow> False | Some n \<Rightarrow> n \<ge> 500)
              then ''long text'' else ''semantic name''))) \<and>
   llm_rule description_row \<and>
   identify_llm_candidates [description_row] =
     [\<lparr>c_database = Val ''DB'', c_schema = Val ''SCH'', c_table = Val ''TBL'',
       c_column = Val ''DESCRIPTION'', c_data_type = Val ''VARCHAR'',
       c_max_length = Val 2000, c_comment = PyNone, c_ai_feature = Val ''Cortex LLM'',
       c_reason = Val ''Text column (VARCHAR) - long text'',
       c_statistics = Absent, c_scores = Absent, c_total_score = Absent\<rparr>]"
proof -
  have a: "identify_llm_candidates rows = map llm_candidate (filter llm_rule rows)"
    by (simp add: identify_llm_candidates_def llm_loop_eq)
  have b: "c_ai_feature (llm_candidate row) = Val ''Cortex LLM'' \<and>
      c_reason (llm_candidate row) =
        Val (''Text column ('' @ dt @ '') - '' @
             (if (case r_max_len row of None \<Rightarrow> False | Some n \<Rightarrow> n \<ge> 500)
              then ''long text'' else ''semantic name''))"
    if "r_data_type row = Some dt"
    using that by (cases "r_max_len row") (auto simp: llm_candidate_def is_long_text_def)
  have c: "llm_rule description_row"
    by code_simp
  have d: "identify_llm_candidates [description_row] =
     [\<lparr>c_database = Val ''DB'', c_schema = Val ''SCH'', c_table = Val ''TBL'',
       c_column = Val ''DESCRIPTION'', c_data_type = Val ''VARCHAR'',
       c_max_length = Val 2000, c_comment = PyNone, c_ai_feature = Val ''Cortex LLM'',
       c_reason = Val ''Text column (VARCHAR) - long text'',
       c_statistics = Absent, c_scores = Absent, c_total_score = Absent\<rparr>]"
    by code_simp
  from a b c d show ?thesis by blast
qed

theorem llm_classifier_witness:
  "llm_rule short_named_row \<and>
   c_reason (llm_candidate short_named_row) = Val ''Text column (varchar) - semantic name'' \<and>
   map c_column (identify_llm_candidates [short_named_row]) = [Val ''review_text'']"
proof -
  have h: "llm_rule short_named_row" by code_simp
  show ?thesis
    using llm_classifier [of "[short_named_row]" short_named_row "''varchar''"] h
    by (simp add: short_named_row_def llm_candidate_def)
qed

subsection \<open>Metadata statistics\<close>

text \<open>
  C7, counterexample. For a text column whose declared length is 0 the estimate is the
  fallback 100, not 0.3 times the declared length: \<open>if char_max_len\<close> takes 0 for
  absent.
\<close>

theorem metadata_avg_length_counterexample:
  "avg_length (compute_column_metadata_stats zero_length_column empty_table_meta) = Val 100 \<and>
   character_maximum_length zero_length_column = Val 0 \<and>
   Val 100 \<noteq> Val (min (of_int 0 * (3 / 10)) (5000 :: rat))"
  by code_simp

lemma estimated_avg_exact:
  "py_round2 (min (of_int n * (3 / 10)) 5000) = min (of_int n * (3 / 10)) 5000"
proof (rule py_round2_Ints)
  have "min (of_int n * (3 / 10)) 5000 * 100 = (of_int (min (30 * n) 500000) :: rat)"
    by (simp add: min_def)
  then show "min (of_int n * (3 / 10)) 5000 * 100 \<in> (\<int> :: rat set)"
    by (simp only: Ints_of_int)
qed

text \<open>
  C7, as amended. The metadata estimate is tagged \<open>metadata_only\<close>; its null
  percentage is 0 when \<open>is_nullable = 'NO'\<close> and 20 otherwise; for a text column with
  a declared length other than 0 the average length is the smaller of 0.3 times the
  declared length and 5000; for a text column with no declared length, or a declared
  length of 0, the average length is 100 and the maximum length 16777216.
\<close>

theorem metadata_stats_estimates:
  "(let st = compute_column_metadata_stats cm tm;
        base_type = strip (before_paren (upper (data_type cm)));
        textual = (base_type \<in> TEXT_TYPES \<or>
                list_ex (\<lambda>t. sublist t base_type) [''VARCHAR'', ''TEXT'', ''STRING'', ''CHAR''])
    in source st = Val ''metadata_only'' \<and>
       (cm_is_nullable cm = Val ''NO'' \<longrightarrow> null_percentage st = Val 0) \<and>
       (cm_is_nullable cm \<noteq> Val ''NO'' \<longrightarrow> null_percentage st = Val 20) \<and>
       (textual \<and> character_maximum_length cm = Val n \<and> n \<noteq> 0 \<longrightarrow>
          avg_length st = Val (min (of_int n * (3 / 10)) 5000) \<and>
          max_length st = Val (of_int n)) \<and>
       (textual \<and> (get_field (character_maximum_length cm) = None \<or>
                 character_maximum_length cm = Val 0) \<longrightarrow>
          avg_length st = Val 100 \<and> max_length st = Val 16777216))"
proof -
  define base_type where "base_type = strip (before_paren (upper (data_type cm)))"
  define textual where "textual = (base_type \<in> TEXT_TYPES \<or>
                list_ex (\<lambda>t. sublist t base_type) [''VARCHAR'', ''TEXT'', ''STRING'', ''CHAR''])"
  define st where "st = compute_column_metadata_stats cm tm"
  have tx: "textual \<longleftrightarrow> (base_type \<in> TEXT_TYPES \<or>
            contains_any base_type [''VARCHAR'', ''TEXT'', ''STRING'', ''CHAR''])"
    by (simp add: textual_def contains_any_sublist)
  have src: "source st = Val ''metadata_only''"
    by (simp add: st_def compute_column_metadata_stats_def Let_def empty_statistics_def
        split: option.splits)
  have n0: "null_percentage st = Val 0" if "cm_is_nullable cm = Val ''NO''"
    using that
    by (simp add: st_def compute_column_metadata_stats_def Let_def empty_statistics_def
        split: option.splits)
  have n20: "null_percentage st = Val 20" if "cm_is_nullable cm \<noteq> Val ''NO''"
    using that
    by (cases "cm_is_nullable cm")
       (simp_all add: st_def compute_column_metadata_stats_def Let_def empty_statistics_def
        split: option.splits)
  have decl: "avg_length st = Val (min (of_int n * (3 / 10)) 5000) \<and>
          max_length st = Val (of_int n)"
    if "textual" "character_maximum_length cm = Val n" "n \<noteq> 0"
    using that tx estimated_avg_exact [of n]
    by (simp add: st_def compute_column_metadata_stats_def Let_def base_type_def [symmetric])
  have nodecl: "avg_length st = Val 100 \<and> max_length st = Val 16777216"
    if "textual" "get_field (character_maximum_length cm) = None \<or>
                 character_maximum_length cm = Val 0"
    using that tx
    by (auto simp: st_def compute_column_metadata_stats_def Let_def base_type_def [symmetric])
  show ?thesis
    unfolding Let_def base_type_def [symmetric] textual_def [symmetric] st_def [symmetric]
    using src n0 n20 decl nodecl by blast
qed

theorem metadata_stats_estimates_witness:
  "cm_is_nullable not_null_column = Val ''NO'' \<and>
   character_maximum_length not_null_column = Val 2000 \<and>
   null_percentage (compute_column_metadata_stats not_null_column empty_table_meta) = Val 0 \<and>
   avg_length (compute_column_metadata_stats not_null_column empty_table_meta) = Val 600 \<and>
   cm_is_nullable zero_length_column \<noteq> Val ''NO'' \<and>
   null_percentage (compute_column_metadata_stats zero_length_column empty_table_meta) = Val 20 \<and>
   max_length (compute_column_metadata_stats zero_length_column empty_table_meta) = Val 16777216"
proof -
  have t: "strip (before_paren (upper (data_type not_null_column))) \<in> TEXT_TYPES"
    "strip (before_paren (upper (data_type zero_length_column))) \<in> TEXT_TYPES"
    by code_simp+
  have h: "cm_is_nullable not_null_column = Val ''NO''"
    "character_maximum_length not_null_column = Val 2000"
    "cm_is_nullable zero_length_column \<noteq> Val ''NO''"
    "character_maximum_length zero_length_column = Val 0"
    by (simp_all add: not_null_column_def zero_length_column_def)
  show ?thesis
    using metadata_stats_estimates [of not_null_column empty_table_meta 2000]
      metadata_stats_estimates [of zero_length_column empty_table_meta 0] t h
    by (simp add: Let_def)
qed

subsection \<open>Merging\<close>












end
